theory Spec2Isabelle
  imports Complex_Main "HOL-Library.Char_ord" "HOL-Library.List_Lexorder" "HOL-Library.Multiset"
begin

section \<open>Basic classes of cif2cell (utils.py)\<close>

text \<open>
  The module works on Python floats. A float is modelled by the real number it stands
  for; infinities and NaN are outside the model. Python integers are
  unbounded and are modelled as \<^typ>\<open>int\<close>. A Python list of numbers is a
  \<^typ>\<open>real list\<close>; reading an index that is not there raises \<^verbatim>\<open>IndexError\<close>.
\<close>

subsection \<open>Constants\<close>

definition zero_c :: real where "zero_c = 0"
definition one_c :: real where "one_c = 1"
definition two_c :: real where "two_c = 2"
definition four_c :: real where "four_c = 4"
definition six_c :: real where "six_c = 6"
definition third :: real where "third = 1 / 3"
definition half :: real where "half = one_c / two_c"
definition fourth :: real where "fourth = one_c / four_c"
definition sixth :: real where "sixth = one_c / six_c"
definition occepsilon :: real where "occepsilon = 1 / 1000000"

definition floatlist :: "real list" where
  "floatlist = [third, 2 * third, half, fourth, one_c, zero_c, sqrt 2, sixth, 5 * sixth]"

text \<open>
  \<^verbatim>\<open>GeometryObject.__init__\<close> sets \<^verbatim>\<open>self.compeps = 0.0002\<close> in every geometric
  object, and nothing in the module changes it: it is a constant here.
\<close>

definition compeps :: real where "compeps = 2 / 10000"

subsection \<open>Float arithmetic\<close>

text \<open>
  Every arithmetic operation of Python on floats gives the exact result rounded to a
  double. The code runs as written on exact numbers too (Python fractions), where
  nothing is rounded. The rounding of the number type is the parameter \<open>rnd\<close> of the
  functions below in which rounding decides what the code does: the subtraction in the
  loop of \<^verbatim>\<open>intocell\<close>, the functions \<^verbatim>\<open>det3\<close>, \<^verbatim>\<open>minv3\<close> and \<^verbatim>\<open>mmmult3\<close>, and
  the sum of the occupancies of an AtomSite. It is the identity for exact numbers and
  \<open>round_double\<close> for floats. The other sums and products and the tests against a
  tolerance are taken exactly.

  \<open>round_double\<close> rounds to the nearest number with 53 significant bits, a tie to the
  one with an even last bit; overflow and subnormal numbers are outside the model.
\<close>

definition round_even :: "real \<Rightarrow> int" where
  "round_even r =
     (let f = \<lfloor>r\<rfloor>; d = r - of_int f
      in if d < 1 / 2 then f else if 1 / 2 < d then f + 1 else if even f then f else f + 1)"

definition round_double :: "real \<Rightarrow> real" where
  "round_double x =
     (if x = 0 then 0
      else (let e = \<lfloor>log 2 \<bar>x\<bar>\<rfloor> - 52
            in of_int (round_even (x / 2 powr of_int e)) * 2 powr of_int e))"

text \<open>
  A rounding that keeps the order of numbers and leaves the integers of magnitude up to
  N as they are. The identity is one for every N; rounding to the nearest double keeps
  the order and leaves the integers up to 2^53 as they are.
\<close>

definition monotone_exact :: "(real \<Rightarrow> real) \<Rightarrow> int \<Rightarrow> bool" where
  "monotone_exact rnd N =
     ((\<forall>a b. a \<le> b \<longrightarrow> rnd a \<le> rnd b) \<and> (\<forall>n. \<bar>n\<bar> \<le> N \<longrightarrow> rnd (of_int n) = of_int n))"

subsection \<open>Exceptions and results\<close>

text \<open>
  The five exception classes of the module, and the built-in exceptions its code can
  raise. A computation without loops returns \<open>error + 'a\<close>; one that runs the
  \<^verbatim>\<open>while\<close> loop of \<^verbatim>\<open>intocell\<close> returns \<open>(error + 'a) option\<close>, where
  \<open>None\<close> is a loop that never ends.
\<close>

datatype error =
    SymmetryError | PositionError | CellError | GeometryObjectError | SetupError
  | IndexError | ZeroDivisionError | ValueError | TypeError | NameError | SyntaxError

type_synonym 'a result = "(error + 'a) option"

definition ebind :: "error + 'a \<Rightarrow> ('a \<Rightarrow> error + 'b) \<Rightarrow> error + 'b" where
  "ebind m f = (case m of Inl e \<Rightarrow> Inl e | Inr a \<Rightarrow> f a)"

definition rbind :: "'a result \<Rightarrow> ('a \<Rightarrow> 'b result) \<Rightarrow> 'b result" where
  "rbind m f = (case m of None \<Rightarrow> None | Some (Inl e) \<Rightarrow> Some (Inl e) | Some (Inr a) \<Rightarrow> f a)"

definition returns :: "'a \<Rightarrow> 'a result" where
  "returns a = Some (Inr a)"

definition raises :: "error \<Rightarrow> 'a result" where
  "raises e = Some (Inl e)"

definition getitem :: "'a list \<Rightarrow> nat \<Rightarrow> error + 'a" where
  "getitem xs i = (if i < length xs then Inr (xs ! i) else Inl IndexError)"


text \<open>
  Where a function reads every one of the indices 0, 1, 2 before it returns, and does
  nothing else that can fail, its model tests once that they all exist.
\<close>

text \<open>\<^verbatim>\<open>range(3)\<close>\<close>

definition range3 :: "nat list" where
  "range3 = [0, 1, 2]"

definition has3 :: "'a list \<Rightarrow> bool" where
  "has3 v = (3 \<le> length v)"

definition has3x3 :: "'a list list \<Rightarrow> bool" where
  "has3x3 m = (has3 m \<and> has3 (m ! 0) \<and> has3 (m ! 1) \<and> has3 (m ! 2))"

subsection \<open>Local functions\<close>

definition copysign :: "real \<Rightarrow> real \<Rightarrow> real" where
  "copysign x y = (if y \<ge> 0 then x else - x)"

text \<open>\<^verbatim>\<open>improveprecision(x, eps)\<close>: the first number of the list within eps of x, else x.\<close>

fun improveprecision_in :: "real list \<Rightarrow> real \<Rightarrow> real \<Rightarrow> real" where
  "improveprecision_in [] x eps = x"
| "improveprecision_in (f # fs) x eps =
     (if \<bar>x - f\<bar> \<le> eps then f else improveprecision_in fs x eps)"

definition improveprecision :: "real \<Rightarrow> real \<Rightarrow> real" where
  "improveprecision x eps = improveprecision_in floatlist x eps"

definition det3 :: "(real \<Rightarrow> real) \<Rightarrow> real list list \<Rightarrow> error + real" where
  "det3 rnd m =
     (if has3x3 m then
        (let a = rnd (rnd (m!1!1 * m!2!2) - rnd (m!1!2 * m!2!1));
             b = rnd (rnd (m!1!2 * m!2!0) - rnd (m!1!0 * m!2!2));
             c = rnd (rnd (m!1!0 * m!2!1) - rnd (m!1!1 * m!2!0))
         in Inr (rnd (rnd (rnd (m!0!0 * a) + rnd (m!0!1 * b)) + rnd (m!0!2 * c))))
      else Inl IndexError)"

text \<open>\<^verbatim>\<open>di = 1/det3(m)\<close> is true division: it raises when the determinant is zero.\<close>

definition minv3 :: "(real \<Rightarrow> real) \<Rightarrow> real list list \<Rightarrow> error + real list list" where
  "minv3 rnd m =
     ebind (det3 rnd m) (\<lambda>d.
       if d = 0 then Inl ZeroDivisionError
       else (let di = rnd (1 / d) in
         Inr [[rnd (rnd (rnd (m!1!1*m!2!2) - rnd (m!1!2*m!2!1)) * di),
               rnd (rnd (rnd (m!0!2*m!2!1) - rnd (m!0!1*m!2!2)) * di),
               rnd (rnd (rnd (m!0!1*m!1!2) - rnd (m!0!2*m!1!1)) * di)],
              [rnd (rnd (rnd (m!1!2*m!2!0) - rnd (m!1!0*m!2!2)) * di),
               rnd (rnd (rnd (m!0!0*m!2!2) - rnd (m!0!2*m!2!0)) * di),
               rnd (rnd (rnd (m!0!2*m!1!0) - rnd (m!0!0*m!1!2)) * di)],
              [rnd (rnd (rnd (m!1!0*m!2!1) - rnd (m!1!1*m!2!0)) * di),
               rnd (rnd (rnd (m!0!1*m!2!0) - rnd (m!0!0*m!2!1)) * di),
               rnd (rnd (rnd (m!0!0*m!1!1) - rnd (m!0!1*m!1!0)) * di)]]))"


text \<open>\<^verbatim>\<open>mmmult3\<close>: \<^verbatim>\<open>t = 0\<close>, then \<^verbatim>\<open>t += m1[i][k]*m2[k][j]\<close> for k = 0, 1, 2.\<close>

definition mmmult3 :: "(real \<Rightarrow> real) \<Rightarrow> real list list \<Rightarrow> real list list \<Rightarrow> error + real list list" where
  "mmmult3 rnd m1 m2 =
     (if has3x3 m1 \<and> has3x3 m2 then
        Inr (map (\<lambda>i. map (\<lambda>j.
               rnd (rnd (rnd (0 + rnd (m1!i!0 * m2!0!j)) + rnd (m1!i!1 * m2!1!j))
                    + rnd (m1!i!2 * m2!2!j))) [0, 1, 2])
               [0, 1, 2])
      else Inl IndexError)"

definition identity3 :: "real list list" where
  "identity3 = [[1, 0, 0], [0, 1, 0], [0, 0, 1]]"

subsection \<open>Vector\<close>

text \<open>
  A \<^verbatim>\<open>Vector\<close> is a Python list (with the attribute \<^verbatim>\<open>compeps\<close>).
  \<^verbatim>\<open>Vector.__init__(self, vec)\<close> calls \<^verbatim>\<open>GeometryObject.__init__\<close> and
  \<^verbatim>\<open>list.__init__(self, vec)\<close>, which copies the elements of vec.
\<close>

type_synonym Vector = "real list"

definition Vector_init :: "real list \<Rightarrow> error + Vector" where
  "Vector_init vec = Inr vec"

text \<open>
  \<^verbatim>\<open>hash\<close> is a Python built-in: the hash of a number is the parameter hf.
\<close>

definition Vector_hash :: "(real \<Rightarrow> int) \<Rightarrow> Vector \<Rightarrow> error + int" where
  "Vector_hash hf self =
     ebind (getitem self 0) (\<lambda>a. ebind (getitem self 1) (\<lambda>b. ebind (getitem self 2) (\<lambda>c.
       Inr (hf (11 / 10 * a + 12 / 10 * b + 13 / 10 * c)))))"

text \<open>\<^verbatim>\<open>__eq__\<close>: the loop over \<^verbatim>\<open>range(3)\<close> returns False at the first difference.\<close>

fun Vector_eq_from :: "nat list \<Rightarrow> Vector \<Rightarrow> Vector \<Rightarrow> error + bool" where
  "Vector_eq_from [] self other = Inr True"
| "Vector_eq_from (i # is) self other =
     ebind (getitem self i) (\<lambda>a. ebind (getitem other i) (\<lambda>b.
       if \<bar>a - b\<bar> > compeps then Inr False else Vector_eq_from is self other))"

definition Vector_eq :: "Vector \<Rightarrow> Vector \<Rightarrow> error + bool" where
  "Vector_eq self other = Vector_eq_from range3 self other"



text \<open>\<^verbatim>\<open>[self[i]+other[i] for i in range(3)]\<close>\<close>

definition add3 :: "real list \<Rightarrow> real list \<Rightarrow> error + real list" where
  "add3 a b =
     (if has3 a \<and> has3 b then Inr [a!0 + b!0, a!1 + b!1, a!2 + b!2] else Inl IndexError)"

definition Vector_add :: "Vector \<Rightarrow> Vector \<Rightarrow> error + Vector" where
  "Vector_add self other = ebind (add3 self other) Vector_init"

text \<open>The method \<^verbatim>\<open>improveprecision\<close>: each of the three components in turn.\<close>

fun Vector_improveprecision_from :: "nat list \<Rightarrow> Vector \<Rightarrow> error + Vector" where
  "Vector_improveprecision_from [] self = Inr self"
| "Vector_improveprecision_from (i # is) self =
     ebind (getitem self i) (\<lambda>x.
       Vector_improveprecision_from is (self[i := improveprecision x compeps]))"

definition Vector_improveprecision :: "Vector \<Rightarrow> error + Vector" where
  "Vector_improveprecision self = Vector_improveprecision_from range3 self"

subsection \<open>LatticeVector\<close>

text \<open>
  A \<^verbatim>\<open>LatticeVector\<close> is a Vector with the attribute \<^verbatim>\<open>interval\<close>, a list of two
  numbers, here a pair.
\<close>

record LatticeVector =
  elems :: "real list"
  interval :: "real \<times> real"

text \<open>
  The loop of \<^verbatim>\<open>intocell\<close> on one component:
  \<^verbatim>\<open>while not (self.interval[0] <= self[i] < self.interval[1]): self[i] -= copysign(1,self[i])\<close>.
  It need not end: with the interval [2, 3) it steps between 0.5 and -0.5 for ever, and
  with floats it stays at a number so large that subtracting 1 gives the number again.
\<close>

partial_function (option) intocell_while :: "(real \<Rightarrow> real) \<Rightarrow> real \<times> real \<Rightarrow> real \<Rightarrow> real option" where
  "intocell_while rnd iv x =
     (if fst iv \<le> x \<and> x < snd iv then Some x
      else intocell_while rnd iv (rnd (x - copysign 1 x)))"

fun intocell_from :: "(real \<Rightarrow> real) \<Rightarrow> nat list \<Rightarrow> real \<times> real \<Rightarrow> real list \<Rightarrow> real list result" where
  "intocell_from rnd [] iv v = returns v"
| "intocell_from rnd (i # is) iv v =
     (if i < length v then
        (case intocell_while rnd iv (v ! i) of
           None \<Rightarrow> None
         | Some y \<Rightarrow> intocell_from rnd is iv (v[i := y]))
      else raises IndexError)"

definition intocell :: "(real \<Rightarrow> real) \<Rightarrow> LatticeVector \<Rightarrow> LatticeVector result" where
  "intocell rnd self =
     rbind (intocell_from rnd range3 (interval self) (elems self)) (\<lambda>v.
       returns (self\<lparr>elems := v\<rparr>))"

text \<open>
  \<^verbatim>\<open>LatticeVector.__init__\<close>: the list is filled, the interval is set to [0.0, 1.0],
  then \<^verbatim>\<open>self.intocell()\<close> and \<^verbatim>\<open>self.improveprecision()\<close> run, in this order.
\<close>

definition LatticeVector_init :: "(real \<Rightarrow> real) \<Rightarrow> real list \<Rightarrow> LatticeVector result" where
  "LatticeVector_init rnd vec =
     rbind (Some (Vector_init vec)) (\<lambda>v.
     rbind (intocell rnd \<lparr>elems = v, interval = (0, 1)\<rparr>) (\<lambda>self.
     rbind (Some (Vector_improveprecision (elems self))) (\<lambda>w.
       returns (self\<lparr>elems := w\<rparr>))))"

definition LatticeVector_add :: "(real \<Rightarrow> real) \<Rightarrow> LatticeVector \<Rightarrow> LatticeVector \<Rightarrow> LatticeVector result" where
  "LatticeVector_add rnd self other =
     (if fst (interval self) \<noteq> fst (interval other) \<or> snd (interval self) \<noteq> snd (interval other)
      then raises GeometryObjectError
      else rbind (Some (add3 (elems self) (elems other))) (\<lambda>s.
           rbind (LatticeVector_init rnd s) (\<lambda>t. intocell rnd t)))"

text \<open>
  The call \<^verbatim>\<open>self + other\<close> as a step on the two operand objects: the state of the
  operands after the call, and what the call raised or returned. The body of
  \<^verbatim>\<open>__add__\<close> reads self and other and assigns only to the new object t.
\<close>

definition LatticeVector_add_call ::
  "(real \<Rightarrow> real) \<Rightarrow> LatticeVector \<times> LatticeVector
     \<Rightarrow> ((LatticeVector \<times> LatticeVector) \<times> (error + LatticeVector)) option" where
  "LatticeVector_add_call rnd operands =
     (case LatticeVector_add rnd (fst operands) (snd operands) of
        None \<Rightarrow> None
      | Some outcome \<Rightarrow> Some (operands, outcome))"

text \<open>
  \<^verbatim>\<open>change_interval\<close> sets \<^verbatim>\<open>self.interval\<close>, builds the zero vector t, gives it the
  interval too, and ends with \<^verbatim>\<open>self = self + t\<close>: the sum is bound to the local name
  \<^verbatim>\<open>self\<close> and dropped when the method returns. The value is the object after the call.
\<close>

definition change_interval :: "(real \<Rightarrow> real) \<Rightarrow> LatticeVector \<Rightarrow> real \<times> real \<Rightarrow> LatticeVector result" where
  "change_interval rnd self iv =
     (let self1 = self\<lparr>interval := iv\<rparr> in
      rbind (LatticeVector_init rnd [0, 0, 0]) (\<lambda>t.
      let t1 = t\<lparr>interval := iv\<rparr> in
      rbind (LatticeVector_add rnd self1 t1) (\<lambda>local_self. returns self1)))"


text \<open>
  The condition that \<^verbatim>\<open>intocell\<close> tests, \<^verbatim>\<open>interval[0] <= c < interval[1]\<close>, for
  every component of a vector.
\<close>

definition in_cell :: "LatticeVector \<Rightarrow> bool" where
  "in_cell v = list_all (\<lambda>c. fst (interval v) \<le> c \<and> c < snd (interval v)) (elems v)"

subsection \<open>LatticeMatrix\<close>

text \<open>\<^verbatim>\<open>LatticeMatrix(mat)\<close> is the list of the Vectors made from the rows of mat.\<close>

fun emap :: "('a \<Rightarrow> error + 'b) \<Rightarrow> 'a list \<Rightarrow> error + 'b list" where
  "emap f [] = Inr []"
| "emap f (x # xs) = ebind (f x) (\<lambda>y. ebind (emap f xs) (\<lambda>ys. Inr (y # ys)))"

definition LatticeMatrix_init :: "real list list \<Rightarrow> error + real list list" where
  "LatticeMatrix_init mat = emap Vector_init mat"

subsection \<open>AtomSite\<close>

text \<open>
  The sites that have a position. A Python dict is a list of items in which every key
  occurs once; two dicts are equal when they hold the same items, in whatever order.
\<close>

record AtomSite =
  position :: LatticeVector
  species :: "(string \<times> real) list"
  label :: string
  charges :: "(string \<times> real) list"
  index :: "int option"

definition dict_eq :: "('k \<times> 'v) list \<Rightarrow> ('k \<times> 'v) list \<Rightarrow> bool" where
  "dict_eq a b = (set a = set b)"

text \<open>
  \<^verbatim>\<open>sum(values)\<close>: from 0, the values are added one by one, in the order of the
  dict, each sum rounded.
\<close>

definition pysum :: "(real \<Rightarrow> real) \<Rightarrow> real list \<Rightarrow> real" where
  "pysum rnd xs = foldl (\<lambda>s v. rnd (s + v)) 0 xs"

text \<open>
  \<^verbatim>\<open>hash(self.position)+hash(''.join(sorted(self.species.keys())))+hash(sum(self.species.values()))\<close>,
  with the built-in hash of a number (hf) and of a string (hs) as parameters.
\<close>

definition AtomSite_hash ::
  "(real \<Rightarrow> real) \<Rightarrow> (real \<Rightarrow> int) \<Rightarrow> (string \<Rightarrow> int) \<Rightarrow> AtomSite \<Rightarrow> error + int" where
  "AtomSite_hash rnd hf hs self =
     ebind (Vector_hash hf (elems (position self))) (\<lambda>h.
       Inr (h + hs (concat (sort (map fst (species self))))
              + hf (pysum rnd (map snd (species self)))))"

definition AtomSite_eq :: "AtomSite \<Rightarrow> AtomSite \<Rightarrow> error + bool" where
  "AtomSite_eq self other =
     ebind (Vector_eq (elems (position self)) (elems (position other))) (\<lambda>p.
       if p then Inr (dict_eq (species self) (species other)) else Inr False)"

subsection \<open>SymmetryOperation\<close>

text \<open>
  The string methods used by the parser, for 8-bit strings: \<^verbatim>\<open>replace\<close> with a pattern
  of one character, \<^verbatim>\<open>split()\<close> on runs of whitespace, \<^verbatim>\<open>strip(chars)\<close>.
\<close>

definition str_replace :: "char \<Rightarrow> string \<Rightarrow> string \<Rightarrow> string" where
  "str_replace old new s = concat (map (\<lambda>c. if c = old then new else [c]) s)"

definition is_space :: "char \<Rightarrow> bool" where
  "is_space c = (c \<in> {CHR '' '', CHR 0x09, CHR 0x0A, CHR 0x0B, CHR 0x0C, CHR 0x0D})"

fun str_split_from :: "string \<Rightarrow> string \<Rightarrow> string list" where
  "str_split_from cur [] = (if cur = [] then [] else [cur])"
| "str_split_from cur (c # cs) =
     (if is_space c then (if cur = [] then str_split_from [] cs else cur # str_split_from [] cs)
      else str_split_from (cur @ [c]) cs)"

definition str_split :: "string \<Rightarrow> string list" where
  "str_split s = str_split_from [] s"

definition str_strip :: "string \<Rightarrow> string \<Rightarrow> string" where
  "str_strip chars s =
     rev (dropWhile (\<lambda>c. c \<in> set chars) (rev (dropWhile (\<lambda>c. c \<in> set chars) s)))"

text \<open>\<^verbatim>\<open>e.replace('+',' +').replace('-',' -').split()\<close>\<close>

definition tokens :: "string \<Rightarrow> string list" where
  "tokens e = str_split (str_replace CHR ''-'' '' -'' (str_replace CHR ''+'' '' +'' e))"

text \<open>
  \<^verbatim>\<open>float\<close> is applied to a token stripped of its letter and followed by "1": the
  model covers an optional sign before the "1", and \<^verbatim>\<open>ValueError\<close> is what Python
  raises on a string with two signs.
\<close>

definition pyfloat :: "string \<Rightarrow> error + real" where
  "pyfloat s =
     (if s = ''1'' \<or> s = ''+1'' then Inr 1 else if s = ''-1'' then Inr (- 1) else Inl ValueError)"

definition setitem :: "'a list \<Rightarrow> nat \<Rightarrow> 'a \<Rightarrow> error + 'a list" where
  "setitem xs j v = (if j < length xs then Inr (xs[j := v]) else Inl IndexError)"

definition setitem2 :: "'a list list \<Rightarrow> nat \<Rightarrow> nat \<Rightarrow> 'a \<Rightarrow> error + 'a list list" where
  "setitem2 m i j v = ebind (getitem m i) (\<lambda>row. ebind (setitem row j v) (\<lambda>row'. setitem m i row'))"

text \<open>A \<^verbatim>\<open>for\<close> loop over a list that updates a value and stops at the first error.\<close>

fun efold :: "('a \<Rightarrow> 'b \<Rightarrow> error + 'b) \<Rightarrow> 'a list \<Rightarrow> 'b \<Rightarrow> error + 'b" where
  "efold f [] s = Inr s"
| "efold f (x # xs) s = ebind (f x s) (efold f xs)"

record SymmetryOperation =
  eqsite :: "string list"
  rotation :: "real list list"
  translation :: LatticeVector

definition rotmat_token :: "nat \<Rightarrow> string \<Rightarrow> real list list \<Rightarrow> error + real list list" where
  "rotmat_token j i mat =
     (if str_strip ''+-'' i = ''x'' then
        ebind (pyfloat (str_strip ''x'' i @ ''1'')) (\<lambda>v. setitem2 mat 0 j v)
      else if str_strip ''+-'' i = ''y'' then
        ebind (pyfloat (str_strip ''y'' i @ ''1'')) (\<lambda>v. setitem2 mat 1 j v)
      else if str_strip ''+-'' i = ''z'' then
        ebind (pyfloat (str_strip ''z'' i @ ''1'')) (\<lambda>v. setitem2 mat 2 j v)
      else Inr mat)"

text \<open>\<^verbatim>\<open>for j in range(len(self.eqsite))\<close>, from the index j on.\<close>

fun rotmat_from :: "nat \<Rightarrow> string list \<Rightarrow> real list list \<Rightarrow> error + real list list" where
  "rotmat_from j [] mat = Inr mat"
| "rotmat_from j (e # es) mat = ebind (efold (rotmat_token j) (tokens e) mat) (rotmat_from (Suc j) es)"

definition rotmat :: "string list \<Rightarrow> error + real list list" where
  "rotmat eqs =
     ebind (rotmat_from 0 eqs [[0, 0, 0], [0, 0, 0], [0, 0, 0]]) LatticeMatrix_init"

text \<open>
  \<^verbatim>\<open>eval\<close> is a Python built-in: the value or the error of evaluating a token is the
  parameter ev. A value is a number or something that is not a number (a complex
  number, None, a string, a list).
\<close>

datatype pyvalue = Number real | NotNumber

text \<open>
  \<^verbatim>\<open>vec\<close> is a list of three cells, each 0.0 at first; \<^verbatim>\<open>vec[j] = eval(i)\<close> raises
  IndexError for j beyond the last cell.
\<close>

definition setcell ::
  "pyvalue \<times> pyvalue \<times> pyvalue \<Rightarrow> nat \<Rightarrow> pyvalue \<Rightarrow> error + pyvalue \<times> pyvalue \<times> pyvalue" where
  "setcell vec j v =
     (case vec of (a, b, c) \<Rightarrow>
        if j = 0 then Inr (v, b, c) else if j = 1 then Inr (a, v, c)
        else if j = 2 then Inr (a, b, v) else Inl IndexError)"


definition transvec_token ::
  "(string \<Rightarrow> error + pyvalue) \<Rightarrow> nat \<Rightarrow> string \<Rightarrow> pyvalue \<times> pyvalue \<times> pyvalue
     \<Rightarrow> error + pyvalue \<times> pyvalue \<times> pyvalue" where
  "transvec_token ev j i vec =
     (if str_strip ''+-xyz'' i \<noteq> [] then ebind (ev i) (\<lambda>v. setcell vec j v) else Inr vec)"

fun transvec_from ::
  "(string \<Rightarrow> error + pyvalue) \<Rightarrow> nat \<Rightarrow> string list \<Rightarrow> pyvalue \<times> pyvalue \<times> pyvalue
     \<Rightarrow> error + pyvalue \<times> pyvalue \<times> pyvalue" where
  "transvec_from ev j [] vec = Inr vec"
| "transvec_from ev j (e # es) vec =
     ebind (efold (transvec_token ev j) (tokens e) vec) (transvec_from ev (Suc j) es)"

text \<open>
  \<^verbatim>\<open>LatticeVector(vec)\<close> on the three cells. \<^verbatim>\<open>intocell\<close> takes the components in
  turn: on one that is not a number its loop raises TypeError (in the comparison, or in
  the subtraction of the first round), after the components before it have been folded.
\<close>

fun LatticeVector_of_values ::
  "(real \<Rightarrow> real) \<Rightarrow> pyvalue \<times> pyvalue \<times> pyvalue \<Rightarrow> LatticeVector result" where
  "LatticeVector_of_values rnd (Number a, Number b, Number c) = LatticeVector_init rnd [a, b, c]"
| "LatticeVector_of_values rnd (NotNumber, b, c) = raises TypeError"
| "LatticeVector_of_values rnd (Number a, NotNumber, c) =
     (case intocell_while rnd (0, 1) a of None \<Rightarrow> None | Some a' \<Rightarrow> raises TypeError)"
| "LatticeVector_of_values rnd (Number a, Number b, NotNumber) =
     (case intocell_while rnd (0, 1) a of
        None \<Rightarrow> None
      | Some a' \<Rightarrow>
          (case intocell_while rnd (0, 1) b of None \<Rightarrow> None | Some b' \<Rightarrow> raises TypeError))"

definition transvec ::
  "(real \<Rightarrow> real) \<Rightarrow> (string \<Rightarrow> error + pyvalue) \<Rightarrow> string list \<Rightarrow> LatticeVector result" where
  "transvec rnd ev eqs =
     rbind (Some (transvec_from ev 0 eqs (Number 0, Number 0, Number 0)))
       (LatticeVector_of_values rnd)"

text \<open>
  \<^verbatim>\<open>SymmetryOperation.__init__\<close> with an expression list:
  \<^verbatim>\<open>self.rotation = self.rotmat()\<close>, then
  \<^verbatim>\<open>self.translation = LatticeVector(self.transvec())\<close>.
\<close>

definition SymmetryOperation_init ::
  "(real \<Rightarrow> real) \<Rightarrow> (string \<Rightarrow> error + pyvalue) \<Rightarrow> string list \<Rightarrow> SymmetryOperation result" where
  "SymmetryOperation_init rnd ev eqs =
     rbind (Some (rotmat eqs)) (\<lambda>rot.
     rbind (transvec rnd ev eqs) (\<lambda>tv.
     rbind (LatticeVector_init rnd (elems tv)) (\<lambda>tr.
       returns \<lparr>eqsite = eqs, rotation = rot, translation = tr\<rparr>)))"










subsection \<open>Crystal system of a space group number\<close>

text \<open>
  \<^verbatim>\<open>crystal_system(spacegroupnr)\<close>: a chain of chained comparisons; the first branch
  that holds decides, the final \<^verbatim>\<open>else\<close> returns "unknown".
\<close>

definition crystal_system :: "int \<Rightarrow> string" where
  "crystal_system spacegroupnr =
     (if 0 < spacegroupnr \<and> spacegroupnr \<le> 2 then ''triclinic''
      else if 2 < spacegroupnr \<and> spacegroupnr \<le> 15 then ''monoclinic''
      else if 15 < spacegroupnr \<and> spacegroupnr \<le> 74 then ''orthorhombic''
      else if 75 < spacegroupnr \<and> spacegroupnr \<le> 142 then ''tetragonal''
      else if 142 < spacegroupnr \<and> spacegroupnr \<le> 167 then ''trigonal''
      else if 167 < spacegroupnr \<and> spacegroupnr \<le> 194 then ''hexagonal''
      else if 194 < spacegroupnr \<and> spacegroupnr \<le> 230 then ''cubic''
      else ''unknown'')"

section \<open>Properties\<close>

subsection \<open>Results and the loop of intocell\<close>

lemma has3_cons: "has3 v \<longleftrightarrow> (\<exists>a b c rest. v = a # b # c # rest)"
  by (auto simp: has3_def numeral_3_eq_3 Suc_le_length_iff)

lemma rbind_returns [simp]: "rbind (returns a) f = f a"
  by (simp add: rbind_def returns_def)

lemma rbind_raises [simp]: "rbind (raises e) f = raises e"
  by (simp add: rbind_def raises_def)

lemma rbind_Some_Inr [simp]: "rbind (Some (Inr a)) f = f a"
  by (simp add: rbind_def)

lemma rbind_Some_Inl [simp]: "rbind (Some (Inl e)) f = raises e"
  by (simp add: rbind_def raises_def)

lemma rbind_None [simp]: "rbind None f = None"
  by (simp add: rbind_def)

lemma ebind_Inr [simp]: "ebind (Inr a) f = f a"
  by (simp add: ebind_def)

lemma ebind_Inl [simp]: "ebind (Inl e) f = Inl e"
  by (simp add: ebind_def)

lemma returns_neq [simp]: "returns a \<noteq> raises e" "raises e \<noteq> returns a"
  "returns a \<noteq> None" "raises e \<noteq> None" "(returns a = returns b) = (a = b)"
  "(raises e = raises e') = (e = e')" "None \<noteq> returns a" "None \<noteq> raises e"
  by (auto simp: returns_def raises_def)

lemma result_cases:
  obtains (diverges) "r = None" | (raises) e where "r = raises e" | (returns) a where "r = returns a"
  by (cases r) (auto simp: returns_def raises_def, metis sum.exhaust)

text \<open>The loop returns only numbers of the interval, and returns at once on one.\<close>

lemma intocell_while_in:
  assumes "intocell_while rnd iv x = Some y"
  shows "fst iv \<le> y \<and> y < snd iv"
proof -
  have step: "fst iv \<le> r \<and> r < snd iv"
    if "\<And>rnd iv x y. f rnd iv x = Some y \<Longrightarrow> fst iv \<le> y \<and> y < snd iv"
      and "(if fst iv \<le> x \<and> x < snd iv then Some x else f rnd iv (rnd (x - copysign 1 x))) = Some r"
    for f :: "(real \<Rightarrow> real) \<Rightarrow> real \<times> real \<Rightarrow> real \<Rightarrow> real option" and rnd iv x r
    using that by (simp split: if_splits)
  from intocell_while.raw_induct
    [where xa = "((rnd, iv), x)" and P = "\<lambda>rnd iv x y. fst iv \<le> y \<and> y < snd iv" and y = y,
      unfolded prod.case, OF step assms]
  show ?thesis .
qed

lemma intocell_while_stay:
  "fst iv \<le> x \<Longrightarrow> x < snd iv \<Longrightarrow> intocell_while rnd iv x = Some x"
  by (subst intocell_while.simps) simp

lemma intocell_while_absorbed:
  assumes "rnd (c - 1) = c" "1 \<le> c"
  shows "intocell_while rnd (0, 1) c = None"
proof (cases "intocell_while rnd (0, 1) c")
  case None
  then show ?thesis .
next
  case (Some y)
  have step: "rnd (c - 1) = c \<and> 1 \<le> c \<and> iv = (0, 1) \<longrightarrow> x \<noteq> c"
    if "\<And>rnd iv x y. f rnd iv x = Some y \<Longrightarrow> rnd (c - 1) = c \<and> 1 \<le> c \<and> iv = (0, 1) \<longrightarrow> x \<noteq> c"
      and "(if fst iv \<le> x \<and> x < snd iv then Some x else f rnd iv (rnd (x - copysign 1 x))) = Some r"
    for f :: "(real \<Rightarrow> real) \<Rightarrow> real \<times> real \<Rightarrow> real \<Rightarrow> real option" and rnd iv x r
  proof (intro impI notI)
    assume h: "rnd (c - 1) = c \<and> 1 \<le> c \<and> iv = (0, 1)" and "x = c"
    with that(2) have "f rnd (0, 1) c = Some r"
      by (simp add: copysign_def)
    from that(1) [OF this] h show False by simp
  qed
  have "rnd (c - 1) = c \<and> 1 \<le> c \<and> ((0, 1) :: real \<times> real) = (0, 1) \<longrightarrow> c \<noteq> c"
  proof (rule intocell_while.raw_induct
      [where xa = "((rnd, (0, 1)), c)"
        and P = "\<lambda>rnd iv x y. rnd (c - 1) = c \<and> 1 \<le> c \<and> iv = (0, 1) \<longrightarrow> x \<noteq> c" and y = y,
        unfolded prod.case])
    fix f :: "(real \<Rightarrow> real) \<Rightarrow> real \<times> real \<Rightarrow> real \<Rightarrow> real option" and rnd' iv x r
    assume ih: "\<And>rnd iv x y. f rnd iv x = Some y \<Longrightarrow> rnd (c - 1) = c \<and> 1 \<le> c \<and> iv = (0, 1) \<longrightarrow> x \<noteq> c"
      and eq: "(if fst iv \<le> x \<and> x < snd iv then Some x else f rnd' iv (rnd' (x - copysign 1 x))) = Some r"
    show "rnd' (c - 1) = c \<and> 1 \<le> c \<and> iv = (0, 1) \<longrightarrow> x \<noteq> c"
      using ih eq by (rule step)
  next
    show "intocell_while rnd (0, 1) c = Some y" by (rule Some)
  qed
  with assms show ?thesis by simp
qed

text \<open>
  With a rounding that keeps the order and leaves the integers up to N as they are, the
  loop for the interval [0, 1) ends on every number of magnitude up to N.
\<close>

lemma intocell_while_nonneg_ends:
  assumes me: "monotone_exact rnd N" and x0: "0 \<le> x" and xN: "x \<le> of_int N"
  shows "\<exists>y. intocell_while rnd (0, 1) x = Some y"
proof -
  define m :: "real \<Rightarrow> nat" where "m = (\<lambda>x. 2 * nat \<lfloor>x\<rfloor> + (if of_int \<lfloor>x\<rfloor> = x then 0 else 1))"
  have m_int: "m (of_int j) = 2 * nat j" for j by (simp add: m_def)
  have m_le: "m x \<le> 2 * nat \<lfloor>x\<rfloor> + 1" for x by (simp add: m_def)
  have m_non: "m x = 2 * nat \<lfloor>x\<rfloor> + 1" if "of_int \<lfloor>x\<rfloor> \<noteq> x" for x
    using that unfolding m_def by (simp only: if_False)
  from me have mono: "\<And>a b. a \<le> b \<Longrightarrow> rnd a \<le> rnd b"
    and ex: "\<And>n. \<bar>n\<bar> \<le> N \<Longrightarrow> rnd (of_int n) = of_int n"
    by (auto simp: monotone_exact_def)
  have "\<exists>y. intocell_while rnd (0, 1) x = Some y" if "0 \<le> x" "x \<le> of_int N" for x
    using that
  proof (induction "m x" arbitrary: x rule: less_induct)
    case less
    show ?case
    proof (cases "x < 1")
      case True
      with less.prems show ?thesis by (simp add: intocell_while_stay)
    next
      case False
      define k where "k = \<lfloor>x\<rfloor>"
      define x' where "x' = rnd (x - 1)"
      from False have k1: "1 \<le> k" unfolding k_def by (simp add: le_floor_iff)
      have kx: "of_int k \<le> x" "x < of_int k + 1" unfolding k_def by linarith+
      have "of_int k \<le> (of_int N :: real)" using less.prems(2) kx(1) by linarith
      then have kN: "k \<le> N" by simp
      have "rnd (of_int (k - 1)) \<le> x'" unfolding x'_def using kx by (intro mono) simp
      moreover have "x' \<le> rnd (of_int k)" unfolding x'_def using kx by (intro mono) simp
      moreover have "rnd (of_int (k - 1)) = of_int (k - 1)" using k1 kN by (intro ex) simp
      moreover have "rnd (of_int k) = of_int k" using k1 kN by (intro ex) simp
      ultimately have b: "of_int (k - 1) \<le> x'" "x' \<le> of_int k" by simp_all
      have "(0::real) \<le> of_int (k - 1)" using k1 by simp
      with b(1) have p1: "0 \<le> x'" by linarith
      have "(of_int k :: real) \<le> of_int N" using kN by simp
      with b(2) have p2: "x' \<le> of_int N" by linarith
      have dec: "m x' < m x"
      proof (cases "of_int k = x")
        case True
        then have "x - 1 = of_int (k - 1)" by simp
        then have "x' = rnd (of_int (k - 1))" unfolding x'_def by (simp only:)
        also have "\<dots> = of_int (k - 1)" using k1 kN by (intro ex) simp
        finally have "m x' = 2 * nat (k - 1)" by (simp only: m_int)
        moreover have "m x = 2 * nat k" using m_int [of k] by (simp only: True)
        ultimately show ?thesis using k1 by simp
      next
        case False
        then have mx: "m x = 2 * nat k + 1" unfolding k_def by (rule m_non)
        show ?thesis
        proof (cases "x' = of_int k")
          case True
          then have "m x' = 2 * nat k" by (simp only: m_int)
          with mx show ?thesis by simp
        next
          case False
          with b have "of_int (k - 1) \<le> x'" "x' < of_int (k - 1) + 1" by simp_all
          then have "\<lfloor>x'\<rfloor> = k - 1" by (rule floor_unique)
          with m_le [of x'] have "m x' \<le> 2 * nat (k - 1) + 1" by simp
          with mx k1 show ?thesis by simp
        qed
      qed
      from less.hyps [OF dec p1 p2] obtain y where "intocell_while rnd (0, 1) x' = Some y" by blast
      then show ?thesis
        using False less.prems(1) unfolding x'_def
        by (subst intocell_while.simps) (simp add: copysign_def)
    qed
  qed
  from this [OF x0 xN] show ?thesis .
qed

lemma intocell_while_ends:
  assumes me: "monotone_exact rnd N" and N1: "1 \<le> N" and xN: "\<bar>x\<bar> \<le> of_int N"
  shows "\<exists>y. intocell_while rnd (0, 1) x = Some y"
proof -
  define m :: "real \<Rightarrow> nat" where "m = (\<lambda>x. 2 * nat (- \<lceil>x\<rceil>) + (if of_int \<lceil>x\<rceil> = x then 0 else 1))"
  have m_int: "m (of_int j) = 2 * nat (- j)" for j by (simp add: m_def)
  have m_le: "m x \<le> 2 * nat (- \<lceil>x\<rceil>) + 1" for x by (simp add: m_def)
  have m_non: "m x = 2 * nat (- \<lceil>x\<rceil>) + 1" if "of_int \<lceil>x\<rceil> \<noteq> x" for x
    using that unfolding m_def by (simp only: if_False)
  from me have mono: "\<And>a b. a \<le> b \<Longrightarrow> rnd a \<le> rnd b"
    and ex: "\<And>n. \<bar>n\<bar> \<le> N \<Longrightarrow> rnd (of_int n) = of_int n"
    by (auto simp: monotone_exact_def)
  have neg: "\<exists>y. intocell_while rnd (0, 1) x = Some y" if "x < 0" "- of_int N \<le> x" for x
    using that
  proof (induction "m x" arbitrary: x rule: less_induct)
    case less
    define c where "c = \<lceil>x\<rceil>"
    define x' where "x' = rnd (x + 1)"
    have cx: "of_int c - 1 < x" "x \<le> of_int c" unfolding c_def by linarith+
    from less.prems(1) have c0: "c \<le> 0" unfolding c_def by (simp add: ceiling_le_iff)
    have "- of_int N \<le> (of_int c :: real)" using less.prems(2) cx(2) by linarith
    then have "(of_int (- N) :: real) \<le> of_int c" by simp
    then have cN: "- N \<le> c" by (simp only: of_int_le_iff)
    have "rnd (of_int c) \<le> x'" unfolding x'_def using cx by (intro mono) simp
    moreover have "x' \<le> rnd (of_int (c + 1))" unfolding x'_def using cx by (intro mono) simp
    moreover have "rnd (of_int c) = of_int c" using c0 cN by (intro ex) simp
    moreover have "rnd (of_int (c + 1)) = of_int (c + 1)" using c0 cN N1 by (intro ex) simp
    ultimately have b: "of_int c \<le> x'" "x' \<le> of_int (c + 1)" by simp_all
    have step: "intocell_while rnd (0, 1) x = intocell_while rnd (0, 1) x'"
      using less.prems(1) unfolding x'_def
      by (subst intocell_while.simps) (simp add: copysign_def)
    show ?case
    proof (cases "0 \<le> x'")
      case True
      have "c + 1 \<le> N" using c0 N1 by simp
      then have "(of_int (c + 1) :: real) \<le> of_int N" by (simp only: of_int_le_iff)
      with b(2) have "x' \<le> of_int N" by linarith
      with me True have "\<exists>y. intocell_while rnd (0, 1) x' = Some y"
        by (rule intocell_while_nonneg_ends)
      with step show ?thesis by simp
    next
      case False
      then have n': "x' < 0" by simp
      have "(of_int (- N) :: real) \<le> of_int c" using cN by (simp only: of_int_le_iff)
      with b(1) have p2: "- of_int N \<le> x'" by simp
      have dec: "m x' < m x"
      proof (cases "of_int c = x")
        case True
        then have "x + 1 = of_int (c + 1)" by simp
        then have "x' = rnd (of_int (c + 1))" unfolding x'_def by (simp only:)
        also have "\<dots> = of_int (c + 1)" using c0 cN N1 by (intro ex) simp
        finally have xe: "x' = of_int (c + 1)" .
        then have "m x' = 2 * nat (- (c + 1))" by (simp only: m_int)
        moreover have "m x = 2 * nat (- c)" using m_int [of c] by (simp only: True)
        moreover have "c + 1 < 0" using n' xe by simp
        ultimately show ?thesis by simp
      next
        case False
        then have mx: "m x = 2 * nat (- c) + 1" unfolding c_def by (rule m_non)
        show ?thesis
        proof (cases "x' = of_int c")
          case True
          then have "m x' = 2 * nat (- c)" by (simp only: m_int)
          with mx show ?thesis by simp
        next
          case False
          with b have "of_int (c + 1) - 1 < x'" "x' \<le> of_int (c + 1)" by simp_all
          then have ce: "\<lceil>x'\<rceil> = c + 1" by (rule ceiling_unique)
          have "c + 1 \<le> 0" using n' ce by (metis ceiling_le_zero less_imp_le)
          with ce m_le [of x'] have "m x' \<le> 2 * nat (- (c + 1)) + 1" by simp
          with mx \<open>c + 1 \<le> 0\<close> show ?thesis by simp
        qed
      qed
      from less.hyps [OF dec n' p2] step show ?thesis by simp
    qed
  qed
  show ?thesis
  proof (cases "0 \<le> x")
    case True
    with xN have "x \<le> of_int N" by simp
    with me True show ?thesis by (rule intocell_while_nonneg_ends)
  next
    case False
    with xN have "x < 0" "- of_int N \<le> x" by simp_all
    then show ?thesis by (rule neg)
  qed
qed

lemma intocell_from_cons:
  "intocell_from rnd range3 iv (a # b # c # rest) =
     (case intocell_while rnd iv a of None \<Rightarrow> None | Some a' \<Rightarrow>
      (case intocell_while rnd iv b of None \<Rightarrow> None | Some b' \<Rightarrow>
       (case intocell_while rnd iv c of None \<Rightarrow> None | Some c' \<Rightarrow>
          returns (a' # b' # c' # rest))))"
  by (simp add: range3_def split: option.splits)

lemma intocell_from_short:
  "\<not> has3 v \<Longrightarrow> intocell_from rnd range3 iv v = None \<or> intocell_from rnd range3 iv v = raises IndexError"
  by (auto simp: has3_def range3_def split: option.splits)

lemma intocell_cons:
  "intocell rnd \<lparr>elems = a # b # c # rest, interval = iv\<rparr> =
     (case intocell_while rnd iv a of None \<Rightarrow> None | Some a' \<Rightarrow>
      (case intocell_while rnd iv b of None \<Rightarrow> None | Some b' \<Rightarrow>
       (case intocell_while rnd iv c of None \<Rightarrow> None | Some c' \<Rightarrow>
          returns \<lparr>elems = a' # b' # c' # rest, interval = iv\<rparr>)))"
  by (simp add: intocell_def intocell_from_cons del: intocell_from.simps split: option.splits)

lemma sqrt2_bounds: "7 / 5 < sqrt 2" "sqrt 2 < 3 / 2"
proof -
  show "7 / 5 < sqrt 2"
    by (rule real_less_rsqrt) (simp add: power2_eq_square)
  show "sqrt 2 < 3 / 2"
    by (rule real_less_lsqrt) (simp_all add: power2_eq_square)
qed

lemmas const_defs = improveprecision_def floatlist_def compeps_def third_def half_def fourth_def
      sixth_def one_c_def zero_c_def two_c_def four_c_def six_c_def

lemma improveprecision_unit:
  assumes "0 \<le> x" "x < 1"
  shows "0 \<le> improveprecision x compeps \<and> improveprecision x compeps \<le> 1"
  using assms sqrt2_bounds
  by (simp add: const_defs)

lemma improveprecision_near_one:
  "improveprecision (9999 / 10000) compeps = 1"
  by (simp add: const_defs)

lemma improveprecision_zero:
  "improveprecision 0 compeps = 0"
  by (simp add: const_defs)

lemma Vector_improveprecision_cons:
  "Vector_improveprecision (a # b # c # rest)
     = Inr (improveprecision a compeps # improveprecision b compeps # improveprecision c compeps # rest)"
  by (simp add: Vector_improveprecision_def getitem_def range3_def)

lemma LatticeVector_init_cons:
  "LatticeVector_init rnd (a # b # c # rest) =
     (case intocell_while rnd (0, 1) a of None \<Rightarrow> None | Some a' \<Rightarrow>
      (case intocell_while rnd (0, 1) b of None \<Rightarrow> None | Some b' \<Rightarrow>
       (case intocell_while rnd (0, 1) c of None \<Rightarrow> None | Some c' \<Rightarrow>
          returns \<lparr>elems = improveprecision a' compeps # improveprecision b' compeps #
                       improveprecision c' compeps # rest,
                     interval = (0, 1)\<rparr>)))"
  by (simp add: LatticeVector_init_def Vector_init_def intocell_cons Vector_improveprecision_cons
      split: option.splits)

text \<open>Components that lie in [0, 1) already: the loop does not run, whatever the rounding.\<close>

lemma LatticeVector_init_inside:
  assumes "0 \<le> a" "a < 1" "0 \<le> b" "b < 1" "0 \<le> c" "c < 1"
  shows "LatticeVector_init rnd (a # b # c # rest)
     = returns \<lparr>elems = improveprecision a compeps # improveprecision b compeps #
                  improveprecision c compeps # rest,
                interval = (0, 1)\<rparr>"
  using assms by (simp add: LatticeVector_init_cons intocell_while_stay)

lemma intocell_inside:
  assumes "fst iv \<le> a" "a < snd iv" "fst iv \<le> b" "b < snd iv" "fst iv \<le> c" "c < snd iv"
  shows "intocell rnd \<lparr>elems = a # b # c # rest, interval = iv\<rparr>
     = returns \<lparr>elems = a # b # c # rest, interval = iv\<rparr>"
  using assms by (simp add: intocell_cons intocell_while_stay)

lemma LatticeVector_init_short:
  "\<not> has3 vec \<Longrightarrow> LatticeVector_init rnd vec = None \<or> LatticeVector_init rnd vec = raises IndexError"
  using intocell_from_short [of vec rnd "(0, 1)"]
  by (auto simp: LatticeVector_init_def Vector_init_def intocell_def simp del: intocell_from.simps)

text \<open>
  What the constructor followed by \<^verbatim>\<open>intocell\<close> gives on a list of at least three
  numbers: it does not return, or it returns three components inside [0, 1).
\<close>

lemma init_intocell_cons:
  "rbind (LatticeVector_init rnd (a # b # c # rest)) (intocell rnd) = None \<or>
   (\<exists>x y z. rbind (LatticeVector_init rnd (a # b # c # rest)) (intocell rnd)
        = returns \<lparr>elems = x # y # z # rest, interval = (0, 1)\<rparr> \<and>
      0 \<le> x \<and> x < 1 \<and> 0 \<le> y \<and> y < 1 \<and> 0 \<le> z \<and> z < 1)"
proof -
  have in01: "0 \<le> y \<and> y < 1" if "intocell_while rnd (0, 1) x = Some y" for x y
    using intocell_while_in [OF that] by simp
  show ?thesis
    by (auto simp: LatticeVector_init_cons intocell_cons split: option.splits dest: in01)
qed

lemma fold_twice:
  assumes me: "monotone_exact rnd N" and N1: "1 \<le> N" and xN: "\<bar>x\<bar> \<le> of_int N"
  shows "\<exists>y z. intocell_while rnd (0, 1) x = Some y \<and>
     intocell_while rnd (0, 1) (improveprecision y compeps) = Some z"
proof -
  from intocell_while_ends [OF me N1 xN] obtain y where y: "intocell_while rnd (0, 1) x = Some y"
    by blast
  from intocell_while_in [OF y] have "0 \<le> y" "y < 1" by simp_all
  from improveprecision_unit [OF this]
  have "\<bar>improveprecision y compeps\<bar> \<le> 1" by simp
  moreover have "(1::real) \<le> of_int N" using N1 by simp
  ultimately have "\<bar>improveprecision y compeps\<bar> \<le> of_int N" by linarith
  from intocell_while_ends [OF me N1 this] y show ?thesis by blast
qed

lemma init_intocell_ends:
  assumes me: "monotone_exact rnd N" and N1: "1 \<le> N"
    and "\<bar>a\<bar> \<le> of_int N" "\<bar>b\<bar> \<le> of_int N" "\<bar>c\<bar> \<le> of_int N"
  shows "\<exists>t. rbind (LatticeVector_init rnd (a # b # c # rest)) (intocell rnd) = returns t"
proof -
  from fold_twice [OF me N1 assms(3)] obtain a' a'' where
    a: "intocell_while rnd (0, 1) a = Some a'"
       "intocell_while rnd (0, 1) (improveprecision a' compeps) = Some a''" by blast
  from fold_twice [OF me N1 assms(4)] obtain b' b'' where
    b: "intocell_while rnd (0, 1) b = Some b'"
       "intocell_while rnd (0, 1) (improveprecision b' compeps) = Some b''" by blast
  from fold_twice [OF me N1 assms(5)] obtain c' c'' where
    c: "intocell_while rnd (0, 1) c = Some c'"
       "intocell_while rnd (0, 1) (improveprecision c' compeps) = Some c''" by blast
  show ?thesis
    by (simp add: LatticeVector_init_cons intocell_cons a b c)
qed


subsection \<open>Rounding to a double\<close>

lemma floor_log2:
  assumes "2 powr of_int k \<le> x" "x < 2 powr of_int (k + 1)"
  shows "\<lfloor>log 2 x\<rfloor> = k"
proof -
  have pos: "0 < x" using assms(1) by (smt (verit) powr_gt_zero)
  have "of_int k \<le> log 2 x" using assms(1) pos by (simp add: le_log_iff)
  moreover have "log 2 x < of_int (k + 1)" using assms(2) pos by (simp add: log_less_iff)
  ultimately show ?thesis by (simp add: floor_eq_iff)
qed

text \<open>A number between 2^(52+n) and 2^(53+n) is rounded to a multiple of 2^n.\<close>

lemma round_double_up:
  assumes "2 ^ 52 * 2 ^ n \<le> \<bar>x\<bar>" "\<bar>x\<bar> < 2 ^ 53 * 2 ^ n"
  shows "round_double x = of_int (round_even (x / 2 ^ n)) * 2 ^ n"
proof -
  have "2 powr of_int (52 + int n) = 2 ^ 52 * (2::real) ^ n"
    by (simp add: powr_add powr_realpow)
  moreover have "2 powr of_int (52 + int n + 1) = 2 ^ 53 * (2::real) ^ n"
    by (simp add: powr_add powr_realpow)
  ultimately have "\<lfloor>log 2 \<bar>x\<bar>\<rfloor> = 52 + int n"
    using assms by (intro floor_log2) simp_all
  moreover have "x \<noteq> 0" using assms(1) by (smt (verit) zero_less_power mult_pos_pos abs_zero)
  ultimately show ?thesis
    by (simp add: round_double_def powr_realpow)
qed

text \<open>A number between 2^(52-n) and 2^(53-n) is rounded to a multiple of 2^(-n).\<close>

lemma round_double_down:
  assumes "2 ^ 52 \<le> \<bar>x\<bar> * 2 ^ n" "\<bar>x\<bar> * 2 ^ n < 2 ^ 53"
  shows "round_double x = of_int (round_even (x * 2 ^ n)) / 2 ^ n"
proof -
  have p1: "2 powr of_int (52 - int n) = 2 ^ 52 / (2::real) ^ n"
    by (simp add: powr_diff powr_realpow)
  have p2: "2 powr of_int (52 - int n + 1) = 2 ^ 53 / (2::real) ^ n"
    by (simp add: powr_diff powr_add powr_realpow)
  have l: "2 powr of_int (52 - int n) \<le> \<bar>x\<bar>"
    unfolding p1 using assms(1) by (simp add: pos_divide_le_eq)
  have u: "\<bar>x\<bar> < 2 powr of_int (52 - int n + 1)"
    unfolding p2 using assms(2) by (simp add: pos_less_divide_eq)
  have fl: "\<lfloor>log 2 \<bar>x\<bar>\<rfloor> = 52 - int n"
    using l u by (rule floor_log2)
  have e: "2 powr of_int (- int n) = 1 / (2::real) ^ n"
    by (simp add: powr_minus powr_realpow inverse_eq_divide)
  have "x \<noteq> 0" using assms(1) by auto
  then show ?thesis
    unfolding round_double_def fl Let_def using e by simp
qed

text \<open>The doubles next to 10^17 are 16 apart: 10^17 - 1 is rounded to 10^17.\<close>

lemma round_double_absorbs: "round_double (10 ^ 17 - 1) = 10 ^ 17"
proof -
  have "round_double (10 ^ 17 - 1) = of_int (round_even ((10 ^ 17 - 1) / 2 ^ 4)) * 2 ^ 4"
    by (rule round_double_up) simp_all
  also have "round_even ((10 ^ 17 - 1) / 2 ^ 4) = 6250000000000000"
    by (simp add: round_even_def Let_def)
  finally show ?thesis by simp
qed


lemma monotone_exact_id: "monotone_exact (\<lambda>x. x) N"
  by (simp add: monotone_exact_def)

subsection \<open>Addition and transform\<close>

lemma LatticeVector_add_differ:
  "interval a \<noteq> interval b \<Longrightarrow> LatticeVector_add rnd a b = raises GeometryObjectError"
  by (simp add: LatticeVector_add_def prod_eq_iff)

lemma LatticeVector_add_same:
  assumes "interval a = interval b"
    and "elems a = x # y # z # r" and "elems b = x' # y' # z' # r'"
  shows "LatticeVector_add rnd a b
     = rbind (LatticeVector_init rnd [x + x', y + y', z + z']) (intocell rnd)"
  using assms by (simp add: LatticeVector_add_def add3_def has3_def)



lemma returns_inject [simp]: "returns a = returns b \<longleftrightarrow> a = b"
  by (simp add: returns_def)

lemma raises_inject [simp]: "raises a = raises b \<longleftrightarrow> a = b"
  by (simp add: raises_def)

subsection \<open>Vector\<close>

text \<open>
  C9 (as the code has it). Constructing a Vector from a list of numbers succeeds for
  every length, three or not, and the Vector holds the elements given: the constructor
  makes no length check and raises nothing.
\<close>

theorem Vector_init_any_length: "Vector_init vec = Inr vec"
  by (simp add: Vector_init_def)

text \<open>
  The claim that a length other than three is refused with a geometry error fails for
  the list [1, 2].
\<close>

theorem Vector_init_short_counterexample:
  "length [1, 2 :: real] \<noteq> 3 \<and> Vector_init [1, 2] \<noteq> Inl GeometryObjectError \<and>
   Vector_init [1, 2] = Inr [1, 2]"
  by (simp add: Vector_init_def)

subsection \<open>LatticeVector\<close>

lemma improveprecision_7_10: "improveprecision (7 / 10) compeps = 7 / 10"
  using sqrt2_bounds by (simp add: const_defs)



lemma improveprecision_1_5: "improveprecision (1 / 5) compeps = 1 / 5"
  using sqrt2_bounds by (simp add: const_defs)

lemma improveprecision_2_5: "improveprecision (2 / 5) compeps = 2 / 5"
  using sqrt2_bounds by (simp add: const_defs)

text \<open>
  C1. At the triple (0.9999, 0, 0) the constructor returns the vector (1, 0, 0) with the
  interval [0, 1): folding leaves 0.9999, and \<^verbatim>\<open>improveprecision\<close>, which runs after
  \<^verbatim>\<open>intocell\<close>, replaces it by 1, which is within compeps of it. The component 1 is
  not below the upper end of the interval. The loop of \<^verbatim>\<open>intocell\<close> does not run
  here, so this holds whatever the rounding of the number type.
\<close>

theorem LatticeVector_init_leaves_cell:
  "LatticeVector_init rnd [9999 / 10000, 0, 0] = returns \<lparr>elems = [1, 0, 0], interval = (0, 1)\<rparr> \<and>
   \<not> in_cell \<lparr>elems = [1, 0, 0], interval = (0, 1)\<rparr>"
  by (simp add: LatticeVector_init_inside improveprecision_near_one improveprecision_zero in_cell_def)

text \<open>
  C2. The vector (0.7, 0, 0), as the constructor returns it, after
  \<^verbatim>\<open>change_interval([-0.5, 0.5])\<close>: the object has the new interval and its old
  components; 0.7 is not in [-0.5, 0.5).
\<close>

theorem change_interval_not_folded:
  "LatticeVector_init rnd [7 / 10, 0, 0] = returns \<lparr>elems = [7 / 10, 0, 0], interval = (0, 1)\<rparr> \<and>
   change_interval rnd \<lparr>elems = [7 / 10, 0, 0], interval = (0, 1)\<rparr> (- 1 / 2, 1 / 2)
     = returns \<lparr>elems = [7 / 10, 0, 0], interval = (- 1 / 2, 1 / 2)\<rparr> \<and>
   \<not> in_cell \<lparr>elems = [7 / 10, 0, 0], interval = (- 1 / 2, 1 / 2)\<rparr>"
proof -
  have i: "LatticeVector_init rnd [7 / 10, 0, 0] = returns \<lparr>elems = [7 / 10, 0, 0], interval = (0, 1)\<rparr>"
    by (simp add: LatticeVector_init_inside improveprecision_7_10 improveprecision_zero)
  have z: "LatticeVector_init rnd [0, 0, 0] = returns \<lparr>elems = [0, 0, 0], interval = (0, 1)\<rparr>"
    by (simp add: LatticeVector_init_inside improveprecision_zero)
  have "LatticeVector_add rnd \<lparr>elems = [7 / 10, 0, 0], interval = (- 1 / 2, 1 / 2)\<rparr>
          \<lparr>elems = [0, 0, 0], interval = (- 1 / 2, 1 / 2)\<rparr>
      = rbind (LatticeVector_init rnd [7 / 10 + 0, 0 + 0, 0 + 0]) (intocell rnd)"
    by (rule LatticeVector_add_same) simp_all
  then have s: "LatticeVector_add rnd \<lparr>elems = [7 / 10, 0, 0], interval = (- 1 / 2, 1 / 2)\<rparr>
          \<lparr>elems = [0, 0, 0], interval = (- 1 / 2, 1 / 2)\<rparr>
      = returns \<lparr>elems = [7 / 10, 0, 0], interval = (0, 1)\<rparr>"
    by (simp add: i intocell_inside)
  have c: "change_interval rnd \<lparr>elems = [7 / 10, 0, 0], interval = (0, 1)\<rparr> (- 1 / 2, 1 / 2)
     = returns \<lparr>elems = [7 / 10, 0, 0], interval = (- 1 / 2, 1 / 2)\<rparr>"
    using s by (simp add: change_interval_def z Let_def)
  have n: "\<not> in_cell \<lparr>elems = [7 / 10, 0, 0], interval = (- 1 / 2, 1 / 2)\<rparr>"
    by (simp add: in_cell_def)
  from i c n show ?thesis by blast
qed

text \<open>
  C6 (as the code has it). For two LatticeVectors a and b, each with its three
  components, and whatever the rounding of the number type:
  a + b raises the geometry error if and only if the intervals of a and b differ, and
  it raises no other error;
  whenever a + b returns, the intervals are equal and the result has the interval
  [0, 1) and three components, each inside that interval;
  the call leaves both operands as they were, whatever it raises or returns;
  when the intervals are equal, a + b returns if the rounding keeps the order of numbers
  and leaves the integers up to N as they are, and no sum of two components is larger
  than N in magnitude.
  Without the bound a + b need not return: the loop of \<^verbatim>\<open>intocell\<close> stays for ever
  at a float from which subtracting 1 gives the same float.
\<close>

theorem LatticeVector_add_error_iff:
  assumes "has3 (elems a)" and "has3 (elems b)"
  shows "(LatticeVector_add rnd a b = raises GeometryObjectError \<longleftrightarrow> interval a \<noteq> interval b) \<and>
         (\<forall>e. LatticeVector_add rnd a b = raises e \<longrightarrow> e = GeometryObjectError) \<and>
         (\<forall>t. LatticeVector_add rnd a b = returns t \<longrightarrow>
            interval a = interval b \<and> interval t = (0, 1) \<and> length (elems t) = 3 \<and> in_cell t) \<and>
         (\<forall>r. LatticeVector_add_call rnd (a, b) = Some r \<longrightarrow> fst r = (a, b)) \<and>
         (monotone_exact rnd N \<and> 1 \<le> N \<and> interval a = interval b \<and>
          \<bar>elems a ! 0 + elems b ! 0\<bar> \<le> of_int N \<and> \<bar>elems a ! 1 + elems b ! 1\<bar> \<le> of_int N \<and>
          \<bar>elems a ! 2 + elems b ! 2\<bar> \<le> of_int N
            \<longrightarrow> (\<exists>t. LatticeVector_add rnd a b = returns t))"
proof -
  from assms(1) obtain x y z r where ea: "elems a = x # y # z # r"
    unfolding has3_cons by blast
  from assms(2) obtain x' y' z' r' where eb: "elems b = x' # y' # z' # r'"
    unfolding has3_cons by blast
  have call: "\<forall>r. LatticeVector_add_call rnd (a, b) = Some r \<longrightarrow> fst r = (a, b)"
    by (auto simp: LatticeVector_add_call_def split: option.splits)
  show ?thesis
  proof (cases "interval a = interval b")
    case False
    then have "LatticeVector_add rnd a b = raises GeometryObjectError"
      by (rule LatticeVector_add_differ)
    with False call show ?thesis by simp
  next
    case True
    note eq = LatticeVector_add_same [OF True ea eb, of rnd]
    from init_intocell_cons [of rnd "x + x'" "y + y'" "z + z'" "[]"]
    have part: "LatticeVector_add rnd a b = None \<or>
      (\<exists>t. LatticeVector_add rnd a b = returns t \<and> interval t = (0, 1) \<and> length (elems t) = 3 \<and>
           in_cell t)"
      unfolding eq by (auto simp: in_cell_def)
    have "\<exists>t. LatticeVector_add rnd a b = returns t"
      if "monotone_exact rnd N" "1 \<le> N" "\<bar>x + x'\<bar> \<le> of_int N" "\<bar>y + y'\<bar> \<le> of_int N"
        "\<bar>z + z'\<bar> \<le> of_int N"
      unfolding eq using that by (rule init_intocell_ends)
    then have tot: "monotone_exact rnd N \<and> 1 \<le> N \<and> interval a = interval b \<and>
          \<bar>elems a ! 0 + elems b ! 0\<bar> \<le> of_int N \<and> \<bar>elems a ! 1 + elems b ! 1\<bar> \<le> of_int N \<and>
          \<bar>elems a ! 2 + elems b ! 2\<bar> \<le> of_int N
            \<longrightarrow> (\<exists>t. LatticeVector_add rnd a b = returns t)"
      by (simp add: ea eb)
    from part have err: "\<forall>e. LatticeVector_add rnd a b \<noteq> raises e"
      by (auto simp: returns_def raises_def)
    from part have ret: "\<forall>t. LatticeVector_add rnd a b = returns t \<longrightarrow>
            interval a = interval b \<and> interval t = (0, 1) \<and> length (elems t) = 3 \<and> in_cell t"
      using True by (auto simp: returns_def)
    from err ret call tot True show ?thesis by simp
  qed
qed

text \<open>
  Two vectors with different intervals, and two with the same interval, on exact
  numbers.
\<close>

theorem LatticeVector_add_error_iff_witness:
  "LatticeVector_add (\<lambda>x. x) \<lparr>elems = [1 / 5, 0, 0], interval = (0, 1)\<rparr>
                     \<lparr>elems = [1 / 5, 0, 0], interval = (- 1 / 2, 1 / 2)\<rparr>
     = raises GeometryObjectError \<and>
   monotone_exact (\<lambda>x. x) 1 \<and>
   (\<exists>t. LatticeVector_add (\<lambda>x. x) \<lparr>elems = [1 / 5, 0, 0], interval = (0, 1)\<rparr>
                           \<lparr>elems = [1 / 5, 0, 0], interval = (0, 1)\<rparr> = returns t \<and>
        interval t = (0, 1) \<and> length (elems t) = 3 \<and> in_cell t)"
proof -
  let ?a = "\<lparr>elems = [1 / 5, 0, 0], interval = (0, 1)\<rparr>"
  let ?b = "\<lparr>elems = [1 / 5, 0, 0], interval = (- 1 / 2, 1 / 2)\<rparr>"
  have h: "has3 (elems ?a)" "has3 (elems ?b)" by (simp_all add: has3_def)
  from LatticeVector_add_error_iff [OF h(1) h(2), of "\<lambda>x. x" 1]
  have 1: "LatticeVector_add (\<lambda>x. x) ?a ?b = raises GeometryObjectError" by simp
  from LatticeVector_add_error_iff [OF h(1) h(1), of "\<lambda>x. x" 1] monotone_exact_id [of 1]
  have 2: "\<exists>t. LatticeVector_add (\<lambda>x. x) ?a ?a = returns t" by simp
  then obtain t where t: "LatticeVector_add (\<lambda>x. x) ?a ?a = returns t" ..
  with LatticeVector_add_error_iff [OF h(1) h(1), of "\<lambda>x. x" 1]
  have "interval t = (0, 1) \<and> length (elems t) = 3 \<and> in_cell t" by blast
  with 1 t monotone_exact_id [of 1] show ?thesis by blast
qed

text \<open>
  With floats, (10^17, 0, 0) + (0, 0, 0), both with the interval [0, 1), does not
  return: 10^17 - 1 is rounded to 10^17.
\<close>

theorem LatticeVector_add_counterexample:
  "LatticeVector_add round_double \<lparr>elems = [10 ^ 17, 0, 0], interval = (0, 1)\<rparr>
     \<lparr>elems = [0, 0, 0], interval = (0, 1)\<rparr> = None"
proof -
  have "intocell_while round_double (0, 1) (10 ^ 17) = None"
    using round_double_absorbs by (intro intocell_while_absorbed) simp_all
  then have "LatticeVector_init round_double [10 ^ 17, 0, 0] = None"
    by (simp add: LatticeVector_init_cons)
  moreover have "LatticeVector_add round_double \<lparr>elems = [10 ^ 17, 0, 0], interval = (0, 1)\<rparr>
     \<lparr>elems = [0, 0, 0], interval = (0, 1)\<rparr>
     = rbind (LatticeVector_init round_double [10 ^ 17 + 0, 0 + 0, 0 + 0]) (intocell round_double)"
    by (rule LatticeVector_add_same) simp_all
  ultimately show ?thesis by simp
qed




subsection \<open>AtomSite\<close>

lemma Vector_eq_cons:
  "Vector_eq (a # b # c # r) (a' # b' # c' # r')
     = Inr (\<not> \<bar>a - a'\<bar> > compeps \<and> \<not> \<bar>b - b'\<bar> > compeps \<and> \<not> \<bar>c - c'\<bar> > compeps)"
  by (simp add: Vector_eq_def range3_def getitem_def)

lemma Vector_hash_cons:
  "Vector_hash hf (a # b # c # r) = Inr (hf (11 / 10 * a + 12 / 10 * b + 13 / 10 * c))"
  by (simp add: Vector_hash_def getitem_def)

lemma foldl_add: "foldl (\<lambda>s v. s + v) a xs = a + sum_list (xs :: real list)"
  by (induction xs arbitrary: a) simp_all

text \<open>On exact numbers \<^verbatim>\<open>sum(values)\<close> is the sum of the values, in whatever order.\<close>

lemma pysum_exact: "pysum (\<lambda>x. x) xs = sum_list xs"
  by (simp add: pysum_def foldl_add)

lemma dict_eq_keys_values:
  assumes "dict_eq a b" and "distinct (map fst a)" and "distinct (map fst b)"
  shows "sort (map fst a) = sort (map fst b)"
    and "sum_list (map snd a) = sum_list (map snd (b :: ('k :: linorder \<times> real) list))"
proof -
  from assms(2) have da: "distinct a" by (simp add: distinct_map)
  from assms(3) have db: "distinct b" by (simp add: distinct_map)
  from assms(1) da db have m: "mset a = mset b"
    by (simp add: dict_eq_def set_eq_iff_mset_eq_distinct)
  then have "mset (map fst a) = mset (map fst b)" by (metis mset_map)
  then show "sort (map fst a) = sort (map fst b)"
    by (metis properties_for_sort sorted_sort mset_sort)
  from m have "mset (map snd a) = mset (map snd b)" by (metis mset_map)
  then show "sum_list (map snd a) = sum_list (map snd b)"
    by (metis sum_mset_sum_list)
qed

lemma improveprecision_1_10: "improveprecision (1 / 10) compeps = 1 / 10"
  using sqrt2_bounds by (simp add: const_defs)

lemma improveprecision_1001: "improveprecision (1001 / 10000) compeps = 1001 / 10000"
  using sqrt2_bounds by (simp add: const_defs)

text \<open>
  C3 (as the code has it). For every two AtomSites s and t whose positions are triples
  that differ by less than compeps in every component and whose species dicts are equal,
  s == t holds; and hash(s) == hash(t) holds whenever hash(s.position) ==
  hash(t.position) and the two dicts give the same \<^verbatim>\<open>sum(values)\<close>, whatever the
  built-in hash functions and the rounding are. On exact numbers equal dicts give the
  same sum; with floats the sum depends on the order in which each dict lists its
  values. The hash of a position is the hash of 1.1*x + 1.2*y + 1.3*z, which closeness
  of the positions does not make equal.
\<close>

theorem AtomSite_eq_close:
  assumes "elems (position s) = [x, y, z]" and "elems (position t) = [x', y', z']"
    and "\<bar>x - x'\<bar> < compeps" and "\<bar>y - y'\<bar> < compeps" and "\<bar>z - z'\<bar> < compeps"
    and "dict_eq (species s) (species t)"
    and "distinct (map fst (species s))" and "distinct (map fst (species t))"
  shows "AtomSite_eq s t = Inr True \<and>
    (Vector_hash hf (elems (position s)) = Vector_hash hf (elems (position t)) \<and>
     pysum rnd (map snd (species s)) = pysum rnd (map snd (species t))
       \<longrightarrow> AtomSite_hash rnd hf hs s = AtomSite_hash rnd hf hs t) \<and>
    pysum (\<lambda>x. x) (map snd (species s)) = pysum (\<lambda>x. x) (map snd (species t))"
proof -
  note kv = dict_eq_keys_values [OF assms(6,7,8)]
  have 1: "AtomSite_eq s t = Inr True"
    using assms by (simp add: AtomSite_eq_def Vector_eq_cons)
  have 2: "AtomSite_hash rnd hf hs s = AtomSite_hash rnd hf hs t"
    if "Vector_hash hf (elems (position s)) = Vector_hash hf (elems (position t)) \<and>
     pysum rnd (map snd (species s)) = pysum rnd (map snd (species t))"
    using that kv(1) by (simp add: AtomSite_hash_def)
  have 3: "pysum (\<lambda>x. x) (map snd (species s)) = pysum (\<lambda>x. x) (map snd (species t))"
    using kv(2) by (simp add: pysum_exact)
  from 1 2 3 show ?thesis by blast
qed

text \<open>
  Two sites with the same position and the same species, listed in a different order,
  with the occupancies 0.5 and 0.5.
\<close>

theorem AtomSite_eq_close_witness:
  "AtomSite_eq
     \<lparr>position = \<lparr>elems = [1 / 10, 0, 0], interval = (0, 1)\<rparr>,
      species = [(''Fe'', 1 / 2), (''Co'', 1 / 2)], label = [], charges = [], index = None\<rparr>
     \<lparr>position = \<lparr>elems = [1 / 10, 0, 0], interval = (0, 1)\<rparr>,
      species = [(''Co'', 1 / 2), (''Fe'', 1 / 2)], label = [], charges = [], index = None\<rparr>
     = Inr True \<and>
   (\<forall>rnd hf hs. AtomSite_hash rnd hf hs
     \<lparr>position = \<lparr>elems = [1 / 10, 0, 0], interval = (0, 1)\<rparr>,
      species = [(''Fe'', 1 / 2), (''Co'', 1 / 2)], label = [], charges = [], index = None\<rparr>
     = AtomSite_hash rnd hf hs
     \<lparr>position = \<lparr>elems = [1 / 10, 0, 0], interval = (0, 1)\<rparr>,
      species = [(''Co'', 1 / 2), (''Fe'', 1 / 2)], label = [], charges = [], index = None\<rparr>)"
proof -
  let ?S = "\<lparr>position = \<lparr>elems = [1 / 10, 0, 0], interval = (0, 1)\<rparr>,
      species = [(''Fe'', 1 / 2), (''Co'', 1 / 2)], label = [], charges = [], index = None\<rparr>"
  let ?T = "\<lparr>position = \<lparr>elems = [1 / 10, 0, 0], interval = (0, 1)\<rparr>,
      species = [(''Co'', 1 / 2), (''Fe'', 1 / 2)], label = [], charges = [], index = None\<rparr>"
  have d: "dict_eq (species ?S) (species ?T)"
    by (auto simp: dict_eq_def)
  have "AtomSite_eq ?S ?T = Inr True \<and>
    (Vector_hash hf (elems (position ?S)) = Vector_hash hf (elems (position ?T)) \<and>
     pysum rnd (map snd (species ?S)) = pysum rnd (map snd (species ?T))
       \<longrightarrow> AtomSite_hash rnd hf hs ?S = AtomSite_hash rnd hf hs ?T) \<and>
    pysum (\<lambda>x. x) (map snd (species ?S)) = pysum (\<lambda>x. x) (map snd (species ?T))" for rnd hf hs
    by (rule AtomSite_eq_close [of ?S "1 / 10" 0 0 ?T "1 / 10" 0 0])
       (use d in \<open>simp_all add: compeps_def\<close>)
  then show ?thesis by simp
qed

text \<open>
  The positions (0.1, 0, 0) and (0.1001, 0, 0), both as the constructor returns them,
  with the species {Fe: 1}: the sites are equal, and their hashes are equal only for a
  hash function that maps the numbers 0.11 and 0.11011 to the same value.
\<close>

lemma AtomSite_hash_separates:
  "AtomSite_hash rnd hf hs
     \<lparr>position = \<lparr>elems = [1 / 10, 0, 0], interval = (0, 1)\<rparr>, species = [(''Fe'', 1)],
      label = [], charges = [(''Fe'', 0)], index = None\<rparr>
   = AtomSite_hash rnd hf hs
     \<lparr>position = \<lparr>elems = [1001 / 10000, 0, 0], interval = (0, 1)\<rparr>, species = [(''Fe'', 1)],
      label = [], charges = [(''Fe'', 0)], index = None\<rparr>
   \<longleftrightarrow> hf (11 / 100) = hf (11011 / 100000)"
  by (simp add: AtomSite_hash_def Vector_hash_cons)

theorem AtomSite_hash_counterexample:
  "\<forall>rnd.
   LatticeVector_init rnd [1 / 10, 0, 0] = returns \<lparr>elems = [1 / 10, 0, 0], interval = (0, 1)\<rparr> \<and>
   LatticeVector_init rnd [1001 / 10000, 0, 0] = returns \<lparr>elems = [1001 / 10000, 0, 0], interval = (0, 1)\<rparr> \<and>
   \<bar>1 / 10 - 1001 / 10000\<bar> < compeps \<and>
   AtomSite_eq
     \<lparr>position = \<lparr>elems = [1 / 10, 0, 0], interval = (0, 1)\<rparr>, species = [(''Fe'', 1)],
      label = [], charges = [(''Fe'', 0)], index = None\<rparr>
     \<lparr>position = \<lparr>elems = [1001 / 10000, 0, 0], interval = (0, 1)\<rparr>, species = [(''Fe'', 1)],
      label = [], charges = [(''Fe'', 0)], index = None\<rparr> = Inr True \<and>
   \<not> (\<forall>hf hs. AtomSite_hash rnd hf hs
     \<lparr>position = \<lparr>elems = [1 / 10, 0, 0], interval = (0, 1)\<rparr>, species = [(''Fe'', 1)],
      label = [], charges = [(''Fe'', 0)], index = None\<rparr>
     = AtomSite_hash rnd hf hs
     \<lparr>position = \<lparr>elems = [1001 / 10000, 0, 0], interval = (0, 1)\<rparr>, species = [(''Fe'', 1)],
      label = [], charges = [(''Fe'', 0)], index = None\<rparr>)"
proof
  fix rnd :: "real \<Rightarrow> real"
  let ?A = "\<lparr>position = \<lparr>elems = [1 / 10, 0, 0], interval = (0, 1)\<rparr>, species = [(''Fe'', 1)],
      label = [], charges = [(''Fe'', 0)], index = None\<rparr>"
  let ?B = "\<lparr>position = \<lparr>elems = [1001 / 10000, 0, 0], interval = (0, 1)\<rparr>, species = [(''Fe'', 1)],
      label = [], charges = [(''Fe'', 0)], index = None\<rparr>"
  let ?hf = "\<lambda>x :: real. if x = 11 / 100 then (1 :: int) else 0"
  have "AtomSite_hash rnd ?hf (\<lambda>_. 0) ?A \<noteq> AtomSite_hash rnd ?hf (\<lambda>_. 0) ?B"
    by (simp add: AtomSite_hash_def Vector_hash_cons)
  then have "\<not> (\<forall>hf hs. AtomSite_hash rnd hf hs ?A = AtomSite_hash rnd hf hs ?B)"
    by blast
  moreover have "AtomSite_eq ?A ?B = Inr True"
    by (simp add: AtomSite_eq_def Vector_eq_cons dict_eq_def compeps_def)
  moreover have "LatticeVector_init rnd [1 / 10, 0, 0] = returns \<lparr>elems = [1 / 10, 0, 0], interval = (0, 1)\<rparr>"
    by (simp add: LatticeVector_init_inside improveprecision_1_10 improveprecision_zero)
  moreover have "LatticeVector_init rnd [1001 / 10000, 0, 0]
      = returns \<lparr>elems = [1001 / 10000, 0, 0], interval = (0, 1)\<rparr>"
    by (simp add: LatticeVector_init_inside improveprecision_1001 improveprecision_zero)
  moreover have "\<bar>1 / 10 - 1001 / 10000\<bar> < compeps"
    by (simp add: compeps_def)
  ultimately show "LatticeVector_init rnd [1 / 10, 0, 0] = returns \<lparr>elems = [1 / 10, 0, 0], interval = (0, 1)\<rparr> \<and>
   LatticeVector_init rnd [1001 / 10000, 0, 0] = returns \<lparr>elems = [1001 / 10000, 0, 0], interval = (0, 1)\<rparr> \<and>
   \<bar>1 / 10 - 1001 / 10000\<bar> < compeps \<and>
   AtomSite_eq ?A ?B = Inr True \<and>
   \<not> (\<forall>hf hs. AtomSite_hash rnd hf hs ?A = AtomSite_hash rnd hf hs ?B)"
    by blast
qed

subsection \<open>SymmetryOperation\<close>














text \<open>
  Every token of an expression has a sign at its first place at most, since
  \<^verbatim>\<open>replace\<close> puts a space before every sign.
\<close>

lemma tokens_xy: "tokens ''xy'' = [''xy'']" "tokens ''y'' = [''y'']" "tokens ''z'' = [''z'']"
  by (simp_all add: tokens_def str_replace_def str_split_def is_space_def)































text \<open>
  With floats the construction need not return: on x+1e17, with an \<^verbatim>\<open>eval\<close> that
  gives the number 10^17 for the token +1e17, the loop of \<^verbatim>\<open>intocell\<close> never ends.
\<close>

lemma tokens_large: "tokens ''x+1e17'' = [''x'', ''+1e17'']"
  by (simp add: tokens_def str_replace_def str_split_def is_space_def)

lemma SymmetryOperation_init_large_number:
  "SymmetryOperation_init round_double (\<lambda>s. Inr (Number (10 ^ 17))) [''x+1e17'', ''y'', ''z''] = None"
proof -
  have "intocell_while round_double (0, 1) (10 ^ 17) = None"
    using round_double_absorbs by (intro intocell_while_absorbed) simp_all
  then have "LatticeVector_init round_double [10 ^ 17, 0, 0] = None"
    by (simp add: LatticeVector_init_cons)
  then show ?thesis
    by (simp add: SymmetryOperation_init_def rotmat_def transvec_def tokens_large tokens_xy
        rotmat_token_def transvec_token_def str_strip_def LatticeMatrix_init_def Vector_init_def
        setitem2_def setitem_def getitem_def pyfloat_def setcell_def)
qed

subsection \<open>Inverse of a 3x3 matrix\<close>

lemma scale3:
  fixes D :: real
  shows "x1 * (1 / D) * a + x2 * (1 / D) * d + x3 * (1 / D) * g = (x1 * a + x2 * d + x3 * g) / D"
  by (simp add: add_divide_distrib)

text \<open>
  The rows of the adjugate times the columns of the matrix: the determinant on the
  diagonal, zero elsewhere.
\<close>

lemma cofactor_row:
  fixes a b c d e f g h i :: real
  assumes "a * (e * i - f * h) + b * (f * g - d * i) + c * (d * h - e * g) = D" "D \<noteq> 0"
  shows "(e * i - f * h) * (1 / D) * a + (c * h - b * i) * (1 / D) * d + (b * f - c * e) * (1 / D) * g = 1"
    and "(e * i - f * h) * (1 / D) * b + (c * h - b * i) * (1 / D) * e + (b * f - c * e) * (1 / D) * h = 0"
    and "(e * i - f * h) * (1 / D) * c + (c * h - b * i) * (1 / D) * f + (b * f - c * e) * (1 / D) * i = 0"
    and "(f * g - d * i) * (1 / D) * a + (a * i - c * g) * (1 / D) * d + (c * d - a * f) * (1 / D) * g = 0"
    and "(f * g - d * i) * (1 / D) * b + (a * i - c * g) * (1 / D) * e + (c * d - a * f) * (1 / D) * h = 1"
    and "(f * g - d * i) * (1 / D) * c + (a * i - c * g) * (1 / D) * f + (c * d - a * f) * (1 / D) * i = 0"
    and "(d * h - e * g) * (1 / D) * a + (b * g - a * h) * (1 / D) * d + (a * e - b * d) * (1 / D) * g = 0"
    and "(d * h - e * g) * (1 / D) * b + (b * g - a * h) * (1 / D) * e + (a * e - b * d) * (1 / D) * h = 0"
    and "(d * h - e * g) * (1 / D) * c + (b * g - a * h) * (1 / D) * f + (a * e - b * d) * (1 / D) * i = 1"
proof -
  have n11: "(e * i - f * h) * a + (c * h - b * i) * d + (b * f - c * e) * g = D"
    and n22: "(f * g - d * i) * b + (a * i - c * g) * e + (c * d - a * f) * h = D"
    and n33: "(d * h - e * g) * c + (b * g - a * h) * f + (a * e - b * d) * i = D"
    unfolding assms(1) [symmetric] by (simp_all add: algebra_simps)
  have n12: "(e * i - f * h) * b + (c * h - b * i) * e + (b * f - c * e) * h = 0"
    and n13: "(e * i - f * h) * c + (c * h - b * i) * f + (b * f - c * e) * i = 0"
    and n21: "(f * g - d * i) * a + (a * i - c * g) * d + (c * d - a * f) * g = 0"
    and n23: "(f * g - d * i) * c + (a * i - c * g) * f + (c * d - a * f) * i = 0"
    and n31: "(d * h - e * g) * a + (b * g - a * h) * d + (a * e - b * d) * g = 0"
    and n32: "(d * h - e * g) * b + (b * g - a * h) * e + (a * e - b * d) * h = 0"
    by (simp_all add: algebra_simps)
  show "(e * i - f * h) * (1 / D) * a + (c * h - b * i) * (1 / D) * d + (b * f - c * e) * (1 / D) * g = 1"
    unfolding scale3 n11 using assms(2) by simp
  show "(e * i - f * h) * (1 / D) * b + (c * h - b * i) * (1 / D) * e + (b * f - c * e) * (1 / D) * h = 0"
    unfolding scale3 n12 by simp
  show "(e * i - f * h) * (1 / D) * c + (c * h - b * i) * (1 / D) * f + (b * f - c * e) * (1 / D) * i = 0"
    unfolding scale3 n13 by simp
  show "(f * g - d * i) * (1 / D) * a + (a * i - c * g) * (1 / D) * d + (c * d - a * f) * (1 / D) * g = 0"
    unfolding scale3 n21 by simp
  show "(f * g - d * i) * (1 / D) * b + (a * i - c * g) * (1 / D) * e + (c * d - a * f) * (1 / D) * h = 1"
    unfolding scale3 n22 using assms(2) by simp
  show "(f * g - d * i) * (1 / D) * c + (a * i - c * g) * (1 / D) * f + (c * d - a * f) * (1 / D) * i = 0"
    unfolding scale3 n23 by simp
  show "(d * h - e * g) * (1 / D) * a + (b * g - a * h) * (1 / D) * d + (a * e - b * d) * (1 / D) * g = 0"
    unfolding scale3 n31 by simp
  show "(d * h - e * g) * (1 / D) * b + (b * g - a * h) * (1 / D) * e + (a * e - b * d) * (1 / D) * h = 0"
    unfolding scale3 n32 by simp
  show "(d * h - e * g) * (1 / D) * c + (b * g - a * h) * (1 / D) * f + (a * e - b * d) * (1 / D) * i = 1"
    unfolding scale3 n33 using assms(2) by simp
qed
text \<open>
  C8 (as the code has it). On exact numbers: for every matrix M whose determinant
  det3 M is defined and not zero, mmmult3 (minv3 M) M is the 3x3 identity matrix,
  exactly. With floats the product can be far from the identity.
\<close>

theorem minv3_left_inverse:
  assumes "det3 (\<lambda>x. x) m = Inr d" and "d \<noteq> 0"
  shows "\<exists>w. minv3 (\<lambda>x. x) m = Inr w \<and> mmmult3 (\<lambda>x. x) w m = Inr identity3"
proof -
  from assms(1) have shape: "has3x3 m"
    by (auto simp: det3_def split: if_splits)
  with assms(1) have d: "m!0!0 * (m!1!1 * m!2!2 - m!1!2 * m!2!1) + m!0!1 * (m!1!2 * m!2!0 - m!1!0 * m!2!2)
      + m!0!2 * (m!1!0 * m!2!1 - m!1!1 * m!2!0) = d"
    by (simp add: det3_def Let_def)
  note rows = cofactor_row [OF d assms(2)]
  have inv: "minv3 (\<lambda>x. x) m = Inr
      [[(m!1!1*m!2!2 - m!1!2*m!2!1)*(1/d), (m!0!2*m!2!1 - m!0!1*m!2!2)*(1/d), (m!0!1*m!1!2 - m!0!2*m!1!1)*(1/d)],
       [(m!1!2*m!2!0 - m!1!0*m!2!2)*(1/d), (m!0!0*m!2!2 - m!0!2*m!2!0)*(1/d), (m!0!2*m!1!0 - m!0!0*m!1!2)*(1/d)],
       [(m!1!0*m!2!1 - m!1!1*m!2!0)*(1/d), (m!0!1*m!2!0 - m!0!0*m!2!1)*(1/d), (m!0!0*m!1!1 - m!0!1*m!1!0)*(1/d)]]"
    using assms by (simp add: minv3_def Let_def)
  have "mmmult3 (\<lambda>x. x)
      [[(m!1!1*m!2!2 - m!1!2*m!2!1)*(1/d), (m!0!2*m!2!1 - m!0!1*m!2!2)*(1/d), (m!0!1*m!1!2 - m!0!2*m!1!1)*(1/d)],
       [(m!1!2*m!2!0 - m!1!0*m!2!2)*(1/d), (m!0!0*m!2!2 - m!0!2*m!2!0)*(1/d), (m!0!2*m!1!0 - m!0!0*m!1!2)*(1/d)],
       [(m!1!0*m!2!1 - m!1!1*m!2!0)*(1/d), (m!0!1*m!2!0 - m!0!0*m!2!1)*(1/d), (m!0!0*m!1!1 - m!0!1*m!1!0)*(1/d)]] m
     = Inr identity3"
    using shape rows
    by (simp add: mmmult3_def identity3_def has3x3_def has3_def)
  with inv show ?thesis by blast
qed

theorem minv3_left_inverse_witness:
  "det3 (\<lambda>x. x) [[2, 1, 0], [0, 1, 0], [1, 0, 1]] = Inr 2 \<and> (2 :: real) \<noteq> 0 \<and>
   (\<exists>w. minv3 (\<lambda>x. x) [[2, 1, 0], [0, 1, 0], [1, 0, 1]] = Inr w \<and>
        mmmult3 (\<lambda>x. x) w [[2, 1, 0], [0, 1, 0], [1, 0, 1]] = Inr identity3)"
proof -
  have d: "det3 (\<lambda>x. x) [[2, 1, 0], [0, 1, 0], [1, 0, 1]] = Inr 2"
    by (simp add: det3_def has3x3_def has3_def)
  show ?thesis
    using d minv3_left_inverse [OF d] by simp
qed

subsection \<open>The inverse with floats\<close>

lemma round_even_of_int: "round_even (of_int j) = j"
  by (simp add: round_even_def)

text \<open>An integer below 2^53 in magnitude is a double.\<close>

lemma round_double_of_int:
  assumes "\<bar>n\<bar> < 2 ^ 53"
  shows "round_double (of_int n) = of_int n"
proof (cases "n = 0")
  case True
  then show ?thesis by (simp add: round_double_def)
next
  case False
  define k where "k = \<lfloor>log 2 \<bar>of_int n\<bar>\<rfloor>"
  from False have "1 \<le> \<bar>n\<bar>" by simp
  then have "(of_int 1 :: real) \<le> of_int \<bar>n\<bar>" by (simp only: of_int_le_iff)
  then have pos: "(1::real) \<le> \<bar>of_int n\<bar>" by simp
  then have "0 \<le> log 2 \<bar>of_int n\<bar>" by simp
  then have k0: "0 \<le> k" unfolding k_def by simp
  from assms have "(of_int \<bar>n\<bar> :: real) < of_int (2 ^ 53)" by (simp only: of_int_less_iff)
  then have lt: "\<bar>real_of_int n\<bar> < 2 ^ 53" by simp
  have "2 powr 53 = (2::real) ^ 53" by (simp only: powr_numeral)
  with lt have "\<bar>real_of_int n\<bar> < 2 powr 53" by (simp only:)
  moreover have "0 < \<bar>real_of_int n\<bar>" using pos by linarith
  ultimately have "log 2 \<bar>of_int n\<bar> < 53"
    by (subst log_less_iff) simp_all
  then have k52: "k \<le> 52" unfolding k_def by (simp add: floor_less_iff)
  define m where "m = nat (52 - k)"
  have km: "k - 52 = - int m" unfolding m_def using k52 by simp
  have e: "2 powr of_int (k - 52) = 1 / (2::real) ^ m"
    unfolding km by (simp add: powr_minus powr_realpow inverse_eq_divide)
  have "of_int n / (1 / (2::real) ^ m) = of_int (n * 2 ^ m)" by simp
  then have "round_even (of_int n / (1 / (2::real) ^ m)) = n * 2 ^ m"
    by (simp only: round_even_of_int)
  then show ?thesis
    using False unfolding round_double_def k_def [symmetric] Let_def e by simp
qed

lemma round_double_numeral:
  "(numeral w :: int) < 2 ^ 53 \<Longrightarrow> round_double (numeral w) = numeral w"
  using round_double_of_int [of "numeral w"] by simp

lemma round_double_neg_numeral:
  "(numeral w :: int) < 2 ^ 53 \<Longrightarrow> round_double (- numeral w) = - numeral w"
  using round_double_of_int [of "- numeral w"] by simp

lemma round_double_zero: "round_double 0 = 0"
  by (simp add: round_double_def)

lemma round_double_down_eval:
  assumes "2 ^ 52 \<le> \<bar>x\<bar> * 2 ^ n" "\<bar>x\<bar> * 2 ^ n < 2 ^ 53" "round_even (x * 2 ^ n) = k"
  shows "round_double x = of_int k / 2 ^ n"
  using round_double_down [OF assms(1,2)] assms(3) by simp

text \<open>
  With floats, for the matrix with the rows (67108865, 67108862, 0),
  (67108866, 67108863, 0), (0, 0, 1), whose determinant is 3 (also as det3 computes it
  with floats): the first entry of mmmult3 (minv3 M) M is 1.25. Every step is the exact
  result rounded to a double: 1/3 to 6004799503160661 / 2^54, the entries of the inverse
  to 22369621 and -3002399662101845 / 2^27, their products with the first column of M
  to 1501199875790165 and -6004799503160655 / 4.
\<close>

theorem minv3_float_counterexample:
  "det3 (\<lambda>x. x) [[67108865, 67108862, 0], [67108866, 67108863, 0], [0, 0, 1]] = Inr 3 \<and>
   det3 round_double [[67108865, 67108862, 0], [67108866, 67108863, 0], [0, 0, 1]] = Inr 3 \<and>
   (\<exists>w p. minv3 round_double [[67108865, 67108862, 0], [67108866, 67108863, 0], [0, 0, 1]] = Inr w \<and>
      mmmult3 round_double w [[67108865, 67108862, 0], [67108866, 67108863, 0], [0, 0, 1]] = Inr p \<and>
      p ! 0 ! 0 = 5 / 4)"
proof -
  define A B C E :: real where "A = 67108865" and "B = 67108862" and "C = 67108866"
    and "E = 67108863"
  define DI W00 W01 Q0 Q1 :: real where "DI = 6004799503160661 / 2 ^ 54"
    and "W00 = 22369621" and "W01 = - (3002399662101845 / 2 ^ 27)"
    and "Q0 = 1501199875790165" and "Q1 = - (6004799503160655 / 4)"
  note defs = A_def B_def C_def E_def DI_def W00_def W01_def Q0_def Q1_def
  have exact: "det3 (\<lambda>x. x) [[A, B, 0], [C, E, 0], [0, 0, 1]] = Inr 3"
    by (simp add: det3_def has3x3_def has3_def defs)
  have rE: "round_double E = E" and rC: "round_double C = C"
    and rmC: "round_double (- C) = - C" and rmB: "round_double (- B) = - B"
    and rB: "round_double B = B"
    by (simp_all add: defs round_double_numeral round_double_neg_numeral)
  have rAE: "round_double (A * E) = A * E" and rBC: "round_double (- (B * C)) = - (B * C)"
    and rdet: "round_double (A * E - B * C) = 3" and r3: "round_double 3 = 3"
    by (simp_all add: defs round_double_numeral round_double_neg_numeral)
  have di: "round_double (1 / 3) = DI"
    unfolding defs
    using round_double_down_eval [of "1 / 3" 54 6004799503160661]
    by (simp add: round_even_def Let_def)
  have w00: "round_double (E * DI) = W00"
    unfolding defs
    using round_double_down_eval [of "67108863 * (6004799503160661 / 2 ^ 54)" 28 6004799413682176]
    by (simp add: round_even_def Let_def)
  have w01: "round_double (- (B * DI)) = W01"
    unfolding defs
    using round_double_down_eval [of "- (67108862 * (6004799503160661 / 2 ^ 54))" 28 "- 6004799324203690"]
    by (simp add: round_even_def Let_def)
  have q0: "round_double (W00 * A) = Q0" and q0r: "round_double Q0 = Q0"
    by (simp_all add: defs round_double_numeral)
  have q1: "round_double (W01 * C) = Q1"
    unfolding defs
    using round_double_down_eval [of "- (3002399662101845 / 2 ^ 27) * 67108866" 2 "- 6004799503160655"]
    by (simp add: round_even_def Let_def)
  have s: "round_double (Q0 + Q1) = 5 / 4"
    unfolding defs
    using round_double_down_eval [of "5 / 4" 52 5629499534213120]
    by (simp add: round_even_def Let_def)
  have sr: "round_double (5 / 4) = 5 / 4"
    using round_double_down_eval [of "5 / 4" 52 5629499534213120]
    by (simp add: round_even_def Let_def)
  have det: "det3 round_double [[A, B, 0], [C, E, 0], [0, 0, 1]] = Inr 3"
    by (simp add: det3_def has3x3_def has3_def round_double_zero Let_def
        rE rC rmC rAE rBC rdet r3)
  have "\<exists>w p. minv3 round_double [[A, B, 0], [C, E, 0], [0, 0, 1]] = Inr w \<and>
      mmmult3 round_double w [[A, B, 0], [C, E, 0], [0, 0, 1]] = Inr p \<and> p ! 0 ! 0 = 5 / 4"
    by (simp add: minv3_def det mmmult3_def has3x3_def has3_def round_double_zero Let_def
        rE rB rmB di w00 w01 q0 q0r q1 s sr)
  with exact det show ?thesis unfolding A_def B_def C_def E_def by blast
qed

subsection \<open>Crystal system\<close>

text \<open>
  C7. For every integer n, crystal_system n is "triclinic" for 0 < n <= 2, "monoclinic"
  for 2 < n <= 15, "orthorhombic" for 15 < n <= 74, "tetragonal" for 75 < n <= 142,
  "trigonal" for 142 < n <= 167, "hexagonal" for 167 < n <= 194, "cubic" for
  194 < n <= 230 and "unknown" for every other n, that is for n <= 0, for n = 75 and for
  n > 230. The function is total: it returns a string for every integer. In particular
  crystal_system 1 is "triclinic", crystal_system 230 is "cubic" and crystal_system 0 is
  "unknown".
\<close>

theorem crystal_system_ranges:
  "(0 < n \<and> n \<le> 2 \<longrightarrow> crystal_system n = ''triclinic'') \<and>
   (2 < n \<and> n \<le> 15 \<longrightarrow> crystal_system n = ''monoclinic'') \<and>
   (15 < n \<and> n \<le> 74 \<longrightarrow> crystal_system n = ''orthorhombic'') \<and>
   (75 < n \<and> n \<le> 142 \<longrightarrow> crystal_system n = ''tetragonal'') \<and>
   (142 < n \<and> n \<le> 167 \<longrightarrow> crystal_system n = ''trigonal'') \<and>
   (167 < n \<and> n \<le> 194 \<longrightarrow> crystal_system n = ''hexagonal'') \<and>
   (194 < n \<and> n \<le> 230 \<longrightarrow> crystal_system n = ''cubic'') \<and>
   (n \<le> 0 \<or> n = 75 \<or> 230 < n \<longrightarrow> crystal_system n = ''unknown'') \<and>
   crystal_system 1 = ''triclinic'' \<and> crystal_system 230 = ''cubic'' \<and>
   crystal_system 0 = ''unknown''"
  by (simp add: crystal_system_def)

theorem crystal_system_ranges_witness:
  "crystal_system 2 = ''triclinic'' \<and> crystal_system 15 = ''monoclinic'' \<and>
   crystal_system 74 = ''orthorhombic'' \<and> crystal_system 76 = ''tetragonal'' \<and>
   crystal_system 167 = ''trigonal'' \<and> crystal_system 168 = ''hexagonal'' \<and>
   crystal_system 195 = ''cubic'' \<and> crystal_system 75 = ''unknown'' \<and>
   crystal_system 231 = ''unknown'' \<and> crystal_system (- 3) = ''unknown''"
  using crystal_system_ranges [of 2] crystal_system_ranges [of 15]
    crystal_system_ranges [of 74] crystal_system_ranges [of 76]
    crystal_system_ranges [of 167] crystal_system_ranges [of 168]
    crystal_system_ranges [of 195] crystal_system_ranges [of 75]
    crystal_system_ranges [of 231] crystal_system_ranges [of "- 3"]
  by simp

end
